theory Spec2Isabelle
  imports Complex_Main "HOL-Library.Finite_Map" "HOL-Library.Word"
begin

section \<open>Data model of the DeviceLink controller\<close>

text \<open>
  The embedding follows \<^verbatim>\<open>pkg/limb/controller/devicelink.go\<close>. Go strings and byte
  slices are both byte sequences, so both are \<^typ>\<open>string\<close>; a nil pointer or a nil map
  is \<^term>\<open>None\<close>. A \<^verbatim>\<open>map[string]string\<close> is a finite map from strings to strings.
\<close>

type_synonym err = string

text \<open>\<^verbatim>\<open>runtime.RawExtension\<close>: only its \<^verbatim>\<open>Raw\<close> bytes are read by the controller.\<close>

record RawExtension =
  Raw :: string

text \<open>\<^verbatim>\<open>metav1.TypeMeta\<close>, the resolved model reference of a link.\<close>

record TypeMeta =
  Kind :: string
  APIVersion :: string

text \<open>
  Modelled from the spec: the types of package \<^verbatim>\<open>api/v1alpha1\<close> (the adaptor reference
  \<open>{name, node, parameters-blob}\<close>, the template \<open>{labels, opaque spec payload}\<close>,
  the status with its node, adaptor name, mirrored parameters, resolved model and four
  condition slots, the link with its finalizers and deletion mark). The fields are the
  ones the controller reads or writes, with the types its code needs: \<^verbatim>\<open>Parameters\<close> is
  compared with nil, so it is a pointer; the template's \<^verbatim>\<open>Spec.Raw\<close> is read without a
  nil test, so \<^verbatim>\<open>Spec\<close> is a value.
\<close>

record DeviceAdaptor =
  Adaptor_Node :: string
  Adaptor_Name :: string
  Adaptor_Parameters :: "RawExtension option"

record DeviceTemplateSpec =
  Template_Labels :: "(string, string) fmap option"
  Template_Spec :: RawExtension

record DeviceLinkSpec =
  Spec_Adaptor :: DeviceAdaptor
  Spec_Template :: DeviceTemplateSpec

datatype ConditionStatus = ConditionTrue | ConditionFalse | ConditionUnknown

record DeviceLinkCondition =
  Cond_Status :: ConditionStatus
  Cond_Message :: string

record DeviceLinkStatus =
  Status_NodeName :: string
  Status_AdaptorName :: string
  Status_Adaptor :: DeviceAdaptor
  Status_Model :: TypeMeta
  ModelExisted :: DeviceLinkCondition
  AdaptorExisted :: DeviceLinkCondition
  DeviceCreated :: DeviceLinkCondition
  DeviceConnected :: DeviceLinkCondition

record DeviceLink =
  Name :: string
  Namespace :: string
  DeletionTimestamp :: "string option"
  Finalizers :: "string list"
  Spec :: DeviceLinkSpec
  Status :: DeviceLinkStatus

text \<open>
  A decoded JSON value, as it stands in an \<^verbatim>\<open>interface{}\<close>. Equality of these trees is
  what \<^verbatim>\<open>reflect.DeepEqual\<close> decides on them: objects compare as finite maps, whatever
  the order of their keys, and an \<^verbatim>\<open>int64\<close> never equals a \<^verbatim>\<open>float64\<close>. Numbers are
  only compared, never computed with; a decoded \<^verbatim>\<open>float64\<close> is a finite number, here a
  real.
\<close>

datatype json =
    JNull
  | JBool bool
  | JInt "64 word"
  | JFloat real
  | JString string
  | JArray "json list"
  | JObject "(string, json) fmap"

text \<open>
  \<^verbatim>\<open>unstructured.Unstructured\<close>: the object tree of a device, with one field for every
  path the controller reads or writes and \<open>rest\<close> for all the others (uid, deletion
  timestamp, owner references, status, ...). A path that is absent from the tree is
  \<^term>\<open>None\<close>; \<^verbatim>\<open>GetLabels\<close> and \<^verbatim>\<open>GetAnnotations\<close> return nil for an absent path.
\<close>

record 'r Unstructured =
  kind :: string
  apiVersion :: string
  name :: string
  namespace :: string
  labels :: "(string, string) fmap option"
  annotations :: "(string, string) fmap option"
  spec :: "json option"
  rest :: 'r

definition GetLabels :: "'r Unstructured \<Rightarrow> (string, string) fmap option" where
  "GetLabels u = labels u"

definition GetAnnotations :: "'r Unstructured \<Rightarrow> (string, string) fmap option" where
  "GetAnnotations u = annotations u"

text \<open>\<^verbatim>\<open>SetLabels\<close> and \<^verbatim>\<open>SetAnnotations\<close> remove the path when given a nil map.\<close>

definition SetLabels :: "(string, string) fmap option \<Rightarrow> 'r Unstructured \<Rightarrow> 'r Unstructured" where
  "SetLabels m u = u\<lparr>labels := m\<rparr>"

definition SetAnnotations :: "(string, string) fmap option \<Rightarrow> 'r Unstructured \<Rightarrow> 'r Unstructured" where
  "SetAnnotations m u = u\<lparr>annotations := m\<rparr>"

section \<open>Helpers of the repository that the controller calls\<close>

text \<open>
  Modelled from the spec: \<^verbatim>\<open>collection.StringSliceContain\<close> and
  \<^verbatim>\<open>collection.StringSliceRemove\<close> (package \<^verbatim>\<open>pkg/util/collection\<close>), the presence test
  and the removal of the finalizer marker.
\<close>

definition StringSliceContain :: "string list \<Rightarrow> string \<Rightarrow> bool" where
  "StringSliceContain xs x = (x \<in> set xs)"

definition StringSliceRemove :: "string list \<Rightarrow> string \<Rightarrow> string list" where
  "StringSliceRemove xs x = removeAll x xs"

text \<open>
  Modelled from the spec: \<^verbatim>\<open>collection.StringMapCopyInto\<close> and
  \<^verbatim>\<open>collection.StringMapCopy\<close>, "the declared template labels copied on top of the
  existing label map" and "labels = copy of declared labels". A nil source leaves the
  destination as it is.
\<close>

definition StringMapCopyInto ::
  "(string, string) fmap option \<Rightarrow> (string, string) fmap option \<Rightarrow> (string, string) fmap option" where
  "StringMapCopyInto source destination =
     (case source of
        None \<Rightarrow> destination
      | Some s \<Rightarrow> Some ((case destination of None \<Rightarrow> fmempty | Some d \<Rightarrow> d) ++\<^sub>f s))"

definition StringMapCopy :: "(string, string) fmap option \<Rightarrow> (string, string) fmap option" where
  "StringMapCopy source = StringMapCopyInto source None"

text \<open>
  Modelled from the spec: \<^verbatim>\<open>object.IsDeleted\<close> (package \<^verbatim>\<open>pkg/util/object\<close>), "the
  link is marked for deletion".
\<close>

definition IsDeleted :: "DeviceLink \<Rightarrow> bool" where
  "IsDeleted link = (DeletionTimestamp link \<noteq> None)"

text \<open>
  Modelled from the spec: the accessors and transitions of package
  \<^verbatim>\<open>pkg/status/devicelink\<close> over the "four ordered condition slots, each a tri-state
  plus reason/message". A success sets the slot to True, a failure sets it to False with
  the given message, a to-check resets it to Unknown; no other slot is touched.
\<close>

definition GetModelExistedStatus :: "DeviceLinkStatus \<Rightarrow> ConditionStatus" where
  "GetModelExistedStatus st = Cond_Status (ModelExisted st)"

definition GetAdaptorExistedStatus :: "DeviceLinkStatus \<Rightarrow> ConditionStatus" where
  "GetAdaptorExistedStatus st = Cond_Status (AdaptorExisted st)"

definition GetDeviceCreatedStatus :: "DeviceLinkStatus \<Rightarrow> ConditionStatus" where
  "GetDeviceCreatedStatus st = Cond_Status (DeviceCreated st)"

definition GetDeviceConnectedStatus :: "DeviceLinkStatus \<Rightarrow> ConditionStatus" where
  "GetDeviceConnectedStatus st = Cond_Status (DeviceConnected st)"

definition ToCheckAdaptorExisted :: "DeviceLinkStatus \<Rightarrow> DeviceLinkStatus" where
  "ToCheckAdaptorExisted st =
     st\<lparr>AdaptorExisted := \<lparr>Cond_Status = ConditionUnknown, Cond_Message = []\<rparr>\<rparr>"

definition SuccessOnAdaptorExisted :: "DeviceLinkStatus \<Rightarrow> DeviceLinkStatus" where
  "SuccessOnAdaptorExisted st =
     st\<lparr>AdaptorExisted := \<lparr>Cond_Status = ConditionTrue, Cond_Message = []\<rparr>\<rparr>"

definition FailOnAdaptorExisted :: "DeviceLinkStatus \<Rightarrow> string \<Rightarrow> DeviceLinkStatus" where
  "FailOnAdaptorExisted st msg =
     st\<lparr>AdaptorExisted := \<lparr>Cond_Status = ConditionFalse, Cond_Message = msg\<rparr>\<rparr>"

definition ToCheckDeviceCreated :: "DeviceLinkStatus \<Rightarrow> DeviceLinkStatus" where
  "ToCheckDeviceCreated st =
     st\<lparr>DeviceCreated := \<lparr>Cond_Status = ConditionUnknown, Cond_Message = []\<rparr>\<rparr>"

definition SuccessOnDeviceCreated :: "DeviceLinkStatus \<Rightarrow> DeviceLinkStatus" where
  "SuccessOnDeviceCreated st =
     st\<lparr>DeviceCreated := \<lparr>Cond_Status = ConditionTrue, Cond_Message = []\<rparr>\<rparr>"

definition FailOnDeviceCreated :: "DeviceLinkStatus \<Rightarrow> string \<Rightarrow> DeviceLinkStatus" where
  "FailOnDeviceCreated st msg =
     st\<lparr>DeviceCreated := \<lparr>Cond_Status = ConditionFalse, Cond_Message = msg\<rparr>\<rparr>"

definition SuccessOnDeviceConnected :: "DeviceLinkStatus \<Rightarrow> DeviceLinkStatus" where
  "SuccessOnDeviceConnected st =
     st\<lparr>DeviceConnected := \<lparr>Cond_Status = ConditionTrue, Cond_Message = []\<rparr>\<rparr>"

definition FailOnDeviceConnected :: "DeviceLinkStatus \<Rightarrow> string \<Rightarrow> DeviceLinkStatus" where
  "FailOnDeviceConnected st msg =
     st\<lparr>DeviceConnected := \<lparr>Cond_Status = ConditionFalse, Cond_Message = msg\<rparr>\<rparr>"

section \<open>The pure helpers of the controller\<close>

text \<open>\<^verbatim>\<open>bytes.Compare\<close>: the lexicographic order of two byte slices as -1, 0 or 1.\<close>

fun bytes_Compare :: "string \<Rightarrow> string \<Rightarrow> int" where
  "bytes_Compare [] [] = 0"
| "bytes_Compare [] (y # ys) = - 1"
| "bytes_Compare (x # xs) [] = 1"
| "bytes_Compare (x # xs) (y # ys) =
     (if (of_char x :: nat) < of_char y then - 1
      else if (of_char y :: nat) < of_char x then 1
      else bytes_Compare xs ys)"

definition compareAdaptorParameters :: "DeviceAdaptor \<Rightarrow> DeviceAdaptor \<Rightarrow> bool" where
  "compareAdaptorParameters adaptor statusAdaptor =
     (case Adaptor_Parameters adaptor of
        None \<Rightarrow> False
      | Some p \<Rightarrow>
          (case Adaptor_Parameters statusAdaptor of
             None \<Rightarrow> False
           | Some q \<Rightarrow> bytes_Compare (Raw p) (Raw q) \<noteq> 0))"

definition markDevice :: "DeviceLink \<Rightarrow> (string, string) fmap option \<Rightarrow> (string, string) fmap" where
  "markDevice link deviceAnnotations =
     (let deviceAnnotations = (case deviceAnnotations of None \<Rightarrow> fmempty | Some m \<Rightarrow> m);
          deviceAdaptor = Spec_Adaptor (Spec link);
          deviceAnnotations = fmupd ''edge.cattle.io/adaptor-node'' (Adaptor_Node deviceAdaptor) deviceAnnotations;
          deviceAnnotations = fmupd ''edge.cattle.io/adaptor-name'' (Adaptor_Name deviceAdaptor) deviceAnnotations
      in case Adaptor_Parameters deviceAdaptor of
           None \<Rightarrow> deviceAnnotations
         | Some p \<Rightarrow> fmupd ''edge.cattle.io/adaptor-parameters'' (Raw p) deviceAnnotations)"

text \<open>
  \<^verbatim>\<open>updateDevice\<close> mutates its target in place and returns \<^verbatim>\<open>(updated, err)\<close>; the
  model returns the two and the target as it is left. \<^verbatim>\<open>jsoniter.Unmarshal\<close> into the
  spec map is a parameter.
\<close>

definition updateDevice ::
  "(string \<Rightarrow> err + json) \<Rightarrow> DeviceLink \<Rightarrow> 'r Unstructured \<Rightarrow> bool \<times> err option \<times> 'r Unstructured" where
  "updateDevice Unmarshal from target =
     (let original = target;
          updatedAnnotations = markDevice from (GetAnnotations target);
          template = Spec_Template (Spec from)
      in case Unmarshal (Raw (Template_Spec template)) of
           Inl e \<Rightarrow> (False, Some e, target)
         | Inr updatedSpec \<Rightarrow>
             (let updatedLabels = StringMapCopyInto (Template_Labels template) (GetLabels target);
                  target = SetLabels updatedLabels target;
                  target = SetAnnotations (Some updatedAnnotations) target;
                  target = target\<lparr>spec := Some updatedSpec\<rparr>
              in (target \<noteq> original, None, target)))"

text \<open>
  \<^verbatim>\<open>constructDevice\<close>; \<^verbatim>\<open>ctrl.SetControllerReference\<close> is a parameter, and \<open>r0\<close> is
  the (empty) remainder of a freshly built object tree.
\<close>

definition constructDevice ::
  "(string \<Rightarrow> err + json) \<Rightarrow> (DeviceLink \<Rightarrow> 'r Unstructured \<Rightarrow> err + 'r Unstructured) \<Rightarrow> 'r
     \<Rightarrow> DeviceLink \<Rightarrow> err + 'r Unstructured" where
  "constructDevice Unmarshal SetControllerReference r0 from =
     (let deviceModel = Status_Model (Status from);
          deviceName = Name from;
          deviceNamespace = Namespace from;
          deviceAnnotations = markDevice from None;
          template = Spec_Template (Spec from)
      in case Unmarshal (Raw (Template_Spec template)) of
           Inl e \<Rightarrow> Inl e
         | Inr deviceSpec \<Rightarrow>
             (let deviceLabels = StringMapCopy (Template_Labels template);
                  device = \<lparr>kind = Kind deviceModel, apiVersion = APIVersion deviceModel,
                            name = deviceName, namespace = deviceNamespace,
                            labels = deviceLabels, annotations = Some deviceAnnotations,
                            spec = Some deviceSpec, rest = r0\<rparr>
              in SetControllerReference from device))"

section \<open>The collaborators of the Reconciler\<close>

text \<open>
  The errors of the resource store, by the classes the controller tests for with
  \<^verbatim>\<open>apierrs.IsNotFound\<close>, \<^verbatim>\<open>apierrs.IsAlreadyExists\<close> and \<^verbatim>\<open>meta.IsNoMatchError\<close>. The
  first two read the reason of an API status error, the third tests for the two
  no-match error types of the REST mapper, which carry no API status: the classes are
  disjoint. A Go \<^verbatim>\<open>error\<close> may be nil, hence the option; every test is false on nil.
\<close>

datatype store_error = NotFound | AlreadyExists | NoMatch | Conflict | OtherError

definition IsNotFound :: "store_error option \<Rightarrow> bool" where
  "IsNotFound e = (e = Some NotFound)"

definition IsAlreadyExists :: "store_error option \<Rightarrow> bool" where
  "IsAlreadyExists e = (e = Some AlreadyExists)"

definition IsNoMatchError :: "store_error option \<Rightarrow> bool" where
  "IsNoMatchError e = (e = Some NoMatch)"

type_synonym NamespacedName = "string \<times> string"

text \<open>
  What the store, the connection manager (\<^verbatim>\<open>SuctionCup\<close>) and the library answer during
  one pass. Every one of them is called at most once on each path of \<^verbatim>\<open>Reconcile\<close>, so
  an answer is a function of the call's arguments. A read into an object returns the
  object as it is filled; \<^verbatim>\<open>Update\<close> of the device returns the object as the store sends
  it back. \<^verbatim>\<open>model.NewInstanceOfTypeMeta\<close> and \<^verbatim>\<open>object.IsActivating\<close>, helpers of the
  repository outside the controller's file, are parameters too, and so is the remainder
  of an object tree that \<^verbatim>\<open>constructDevice\<close> starts from.
\<close>

record 'r Reconciler =
  NodeName :: string
  Get_DeviceLink :: "NamespacedName \<Rightarrow> store_error + DeviceLink"
  Get_Device :: "NamespacedName \<Rightarrow> 'r Unstructured \<Rightarrow> store_error + 'r Unstructured"
  Update_DeviceLink :: "DeviceLink \<Rightarrow> store_error option"
  Status_Update :: "DeviceLink \<Rightarrow> store_error option"
  Update_Device :: "'r Unstructured \<Rightarrow> store_error + 'r Unstructured"
  Create_Device :: "'r Unstructured \<Rightarrow> store_error option"
  SuctionCup_ExistAdaptor :: "string \<Rightarrow> bool"
  SuctionCup_Disconnect :: "DeviceLink \<Rightarrow> bool"
  SuctionCup_Connect :: "DeviceLink \<Rightarrow> err + bool"
  SuctionCup_Send :: "'r Unstructured \<Rightarrow> DeviceLink \<Rightarrow> err option"
  NewInstanceOfTypeMeta :: "TypeMeta \<Rightarrow> err + 'r Unstructured"
  IsActivating :: "'r Unstructured \<Rightarrow> bool"
  Unmarshal :: "string \<Rightarrow> err + json"
  SetControllerReference :: "DeviceLink \<Rightarrow> 'r Unstructured \<Rightarrow> err + 'r Unstructured"
  emptyRest :: 'r

text \<open>
  The effects of a pass, in the order the code performs them: the calls to the store and
  to the connection manager with their arguments, the events, the metrics, the log, and
  each read of a condition slot (\<open>GetStatus\<close>, with the status it reads).
\<close>

datatype DeviceLinkConditionType =
  DeviceLinkModelExisted | DeviceLinkAdaptorExisted | DeviceLinkDeviceCreated | DeviceLinkDeviceConnected

datatype 'r effect =
    LogError string
  | GetStatus DeviceLinkConditionType DeviceLinkStatus
  | CallGet NamespacedName
  | CallGetDevice NamespacedName
  | CallUpdate DeviceLink
  | CallStatusUpdate DeviceLink
  | CallUpdateDevice "'r Unstructured"
  | CallCreate "'r Unstructured"
  | CallExistAdaptor string
  | CallDisconnect DeviceLink
  | CallConnect DeviceLink
  | CallSend "'r Unstructured" DeviceLink
  | Eventf string string string
  | DecreaseConnections string
  | IncreaseConnections string
  | IncreaseSendErrors string
  | IncreaseConnectErrors string
  | ObserveSendLatency string

text \<open>\<^verbatim>\<open>ctrl.Result\<close>; the error that \<^verbatim>\<open>Reconcile\<close> returns with it is always nil.\<close>

record Result =
  Requeue :: bool

type_synonym 'r outcome = "Result \<times> 'r effect list"

definition after :: "'r effect list \<Rightarrow> 'r outcome \<Rightarrow> 'r outcome" where
  "after es out = (fst out, es @ snd out)"

definition ReconcilingDeviceLink :: string where
  "ReconcilingDeviceLink = ''edge.cattle.io/octopus-limb''"

section \<open>Reconcile\<close>

text \<open>
  Two fragments that \<^verbatim>\<open>Reconcile\<close> repeats are written once: the disconnect with its
  counter, and the status write that ends a branch
  (\<^verbatim>\<open>if err := r.Status().Update(ctx, &link); err != nil { log; return requeue }; return\<close>).
\<close>

definition disconnect :: "'r Reconciler \<Rightarrow> DeviceLink \<Rightarrow> 'r effect list" where
  "disconnect r link =
     (if SuctionCup_Disconnect r link
      then [CallDisconnect link, DecreaseConnections (Status_AdaptorName (Status link))]
      else [CallDisconnect link])"

definition statusUpdate :: "'r Reconciler \<Rightarrow> DeviceLink \<Rightarrow> 'r outcome" where
  "statusUpdate r link =
     (case Status_Update r link of
        Some e \<Rightarrow> (\<lparr>Requeue = True\<rparr>,
                   [CallStatusUpdate link, LogError ''Unable to change the status of DeviceLink''])
      | None \<Rightarrow> (\<lparr>Requeue = False\<rparr>, [CallStatusUpdate link]))"

text \<open>The DeviceConnected stage (\<^verbatim>\<open>// validates device connected or not\<close>).\<close>

definition reconcileDeviceConnected ::
  "'r Reconciler \<Rightarrow> DeviceLink \<Rightarrow> 'r Unstructured \<Rightarrow> 'r outcome" where
  "reconcileDeviceConnected r link device =
     after [GetStatus DeviceLinkDeviceConnected (Status link)]
     (case GetDeviceConnectedStatus (Status link) of
        ConditionFalse \<Rightarrow> (\<lparr>Requeue = False\<rparr>, [])
      | ConditionTrue \<Rightarrow>
          (case SuctionCup_Send r device link of
             Some e \<Rightarrow>
               (let link' = link\<lparr>Status := FailOnDeviceConnected (Status link) ''cannot send data to adaptor''\<rparr>;
                    out = statusUpdate r link'
                in (fst out,
                    [CallSend device link, IncreaseSendErrors (Status_AdaptorName (Status link)),
                     Eventf ''Warning'' ''FailedSent'' ''cannot send data to adaptor: %v'']
                    @ snd out @ [ObserveSendLatency (Status_AdaptorName (Status link'))]))
           | None \<Rightarrow>
               (\<lparr>Requeue = False\<rparr>,
                [CallSend device link, ObserveSendLatency (Status_AdaptorName (Status link))]))
      | ConditionUnknown \<Rightarrow>
          (case SuctionCup_Connect r link of
             Inl e \<Rightarrow>
               after [CallConnect link, IncreaseConnectErrors (Status_AdaptorName (Status link)),
                      Eventf ''Warning'' ''FailedConnected'' ''cannot connect to adaptor: %v'']
                 (statusUpdate r
                    (link\<lparr>Status := FailOnDeviceConnected (Status link) ''unable to connect to adaptor''\<rparr>))
           | Inr overwrite \<Rightarrow>
               after ([CallConnect link]
                      @ (if \<not> overwrite then [IncreaseConnections (Status_AdaptorName (Status link))] else [])
                      @ [Eventf ''Normal'' ''Connected'' ''connected to adaptor''])
                 (statusUpdate r (link\<lparr>Status := SuccessOnDeviceConnected (Status link)\<rparr>))))"

text \<open>
  The DeviceCreated stage (\<^verbatim>\<open>// validates device created or not\<close>). Its two long
  branches are definitions of their own, named by the source's comments:
  \<^verbatim>\<open>// updates device\<close>, which falls through to the DeviceConnected stage, and
  \<^verbatim>\<open>// creates device\<close>.
\<close>

definition updatesDevice :: "'r Reconciler \<Rightarrow> DeviceLink \<Rightarrow> 'r Unstructured \<Rightarrow> 'r outcome" where
  "updatesDevice r link device =
     (case updateDevice (Unmarshal r) link device of
        (updated, Some e, device) \<Rightarrow>
          after [Eventf ''Warning'' ''FailedCreated'' ''cannot update device from template: %v'']
            (statusUpdate r
               (link\<lparr>Status := FailOnDeviceCreated (Status link) ''unable to update device from template''\<rparr>))
      | (updated, None, device) \<Rightarrow>
          (if updated
           then (case Update_Device r device of
                   Inl e \<Rightarrow> (\<lparr>Requeue = True\<rparr>,
                             [CallUpdateDevice device, LogError ''Failed to update device''])
                 | Inr device' \<Rightarrow>
                     after [CallUpdateDevice device] (reconcileDeviceConnected r link device'))
           else reconcileDeviceConnected r link device))"

definition createsDevice :: "'r Reconciler \<Rightarrow> DeviceLink \<Rightarrow> 'r outcome" where
  "createsDevice r link =
     (case constructDevice (Unmarshal r) (SetControllerReference r) (emptyRest r) link of
        Inl e \<Rightarrow>
          after [Eventf ''Warning'' ''FailedCreated'' ''cannot create device from template: %v'']
            (statusUpdate r
               (link\<lparr>Status := FailOnDeviceCreated (Status link) ''unable to construct device from template''\<rparr>))
      | Inr device \<Rightarrow>
          (let e = Create_Device r device
           in if e \<noteq> None \<and> \<not> IsAlreadyExists e
              then (\<lparr>Requeue = True\<rparr>,
                    [CallCreate device, LogError ''Unable to create the device of DeviceLink''])
              else if IsNoMatchError e
              then after [CallCreate device,
                          Eventf ''Warning'' ''FailedCreated''
                            ''cannot create device from template: the model isn't existed'']
                     (statusUpdate r
                        (link\<lparr>Status := FailOnDeviceCreated (Status link)
                                           ''unable to construct device from template''\<rparr>))
              else after [CallCreate device, Eventf ''Normal'' ''Created'' ''device instance is created'']
                     (statusUpdate r (link\<lparr>Status := SuccessOnDeviceCreated (Status link)\<rparr>))))"

definition reconcileDeviceCreated ::
  "'r Reconciler \<Rightarrow> NamespacedName \<Rightarrow> DeviceLink \<Rightarrow> 'r outcome" where
  "reconcileDeviceCreated r req link =
     after [GetStatus DeviceLinkDeviceCreated (Status link)]
     (case GetDeviceCreatedStatus (Status link) of
        ConditionFalse \<Rightarrow> (\<lparr>Requeue = False\<rparr>, [])
      | ConditionTrue \<Rightarrow>
          (case NewInstanceOfTypeMeta r (Status_Model (Status link)) of
             Inl e \<Rightarrow>
               after [Eventf ''Warning'' ''FailedCreated'' ''cannot update device from template: %v'']
                 (statusUpdate r
                    (link\<lparr>Status := FailOnDeviceCreated (Status link) ''unable to update device from template''\<rparr>))
           | Inr device0 \<Rightarrow>
               (let got = Get_Device r req device0;
                    e = (case got of Inl e \<Rightarrow> Some e | Inr d \<Rightarrow> None);
                    device = (case got of Inl e \<Rightarrow> device0 | Inr d \<Rightarrow> d)
                in if e \<noteq> None \<and> \<not> IsNotFound e \<and> \<not> IsNoMatchError e
                   then (\<lparr>Requeue = True\<rparr>,
                         [CallGetDevice req, LogError ''Unable to fetch the device of DeviceLink''])
                   else after [CallGetDevice req]
                     (if \<not> IsActivating r device
                      then statusUpdate r (link\<lparr>Status := ToCheckDeviceCreated (Status link)\<rparr>)
                      else updatesDevice r link device)))
      | ConditionUnknown \<Rightarrow> createsDevice r link)"

text \<open>The AdaptorExisted stage (\<^verbatim>\<open>// validates adaptor existing or not\<close>).\<close>

definition reconcileAdaptorExisted ::
  "'r Reconciler \<Rightarrow> NamespacedName \<Rightarrow> DeviceLink \<Rightarrow> 'r outcome" where
  "reconcileAdaptorExisted r req link =
     after [GetStatus DeviceLinkAdaptorExisted (Status link)]
     (case GetAdaptorExistedStatus (Status link) of
        ConditionFalse \<Rightarrow>
          after [CallExistAdaptor (Adaptor_Name (Spec_Adaptor (Spec link)))]
            (if SuctionCup_ExistAdaptor r (Adaptor_Name (Spec_Adaptor (Spec link)))
                \<or> Status_AdaptorName (Status link) \<noteq> Adaptor_Name (Spec_Adaptor (Spec link))
                \<or> compareAdaptorParameters (Spec_Adaptor (Spec link)) (Status_Adaptor (Status link))
             then statusUpdate r (link\<lparr>Status := ToCheckAdaptorExisted (Status link)\<rparr>)
             else (\<lparr>Requeue = False\<rparr>, []))
      | ConditionTrue \<Rightarrow>
          after [CallExistAdaptor (Adaptor_Name (Spec_Adaptor (Spec link)))]
            (if \<not> SuctionCup_ExistAdaptor r (Adaptor_Name (Spec_Adaptor (Spec link)))
                \<or> Status_AdaptorName (Status link) \<noteq> Adaptor_Name (Spec_Adaptor (Spec link))
                \<or> compareAdaptorParameters (Spec_Adaptor (Spec link)) (Status_Adaptor (Status link))
             then after (disconnect r link)
                    (statusUpdate r (link\<lparr>Status := ToCheckAdaptorExisted (Status link)\<rparr>))
             else reconcileDeviceCreated r req link)
      | ConditionUnknown \<Rightarrow>
          (let st = (if SuctionCup_ExistAdaptor r (Adaptor_Name (Spec_Adaptor (Spec link)))
                     then SuccessOnAdaptorExisted (Status link)
                     else FailOnAdaptorExisted (Status link) ''the adaptor isn't existed'');
               st = st\<lparr>Status_AdaptorName := Adaptor_Name (Spec_Adaptor (Spec link))\<rparr>;
               st = st\<lparr>Status_Adaptor :=
                         (Status_Adaptor st)\<lparr>Adaptor_Parameters := Adaptor_Parameters (Spec_Adaptor (Spec link))\<rparr>\<rparr>
           in after [CallExistAdaptor (Adaptor_Name (Spec_Adaptor (Spec link)))]
                (statusUpdate r (link\<lparr>Status := st\<rparr>))))"

text \<open>
  \<^verbatim>\<open>Reconcile\<close>: the fetch of the link, the node gate, the ModelExisted gate, the
  deletion and finalizer gate, then the three stages.
\<close>

definition Reconcile :: "'r Reconciler \<Rightarrow> NamespacedName \<Rightarrow> 'r outcome" where
  "Reconcile r req =
     (case Get_DeviceLink r req of
        Inl e \<Rightarrow>
          (if \<not> IsNotFound (Some e)
           then (\<lparr>Requeue = True\<rparr>, [CallGet req, LogError ''Unable to fetch DeviceLink''])
           else (\<lparr>Requeue = False\<rparr>, [CallGet req]))
      | Inr link \<Rightarrow>
          after [CallGet req]
            (if Status_NodeName (Status link) \<noteq> NodeName r
             then (\<lparr>Requeue = False\<rparr>, disconnect r link)
             else after [GetStatus DeviceLinkModelExisted (Status link)]
               (if GetModelExistedStatus (Status link) \<noteq> ConditionTrue
                then (\<lparr>Requeue = False\<rparr>, disconnect r link)
                else if IsDeleted link
                then (if \<not> StringSliceContain (Finalizers link) ReconcilingDeviceLink
                      then (\<lparr>Requeue = False\<rparr>, [])
                      else (let link' = link\<lparr>Finalizers :=
                                               StringSliceRemove (Finalizers link) ReconcilingDeviceLink\<rparr>
                            in after (disconnect r link)
                                 (case Update_DeviceLink r link' of
                                    Some e \<Rightarrow>
                                      (\<lparr>Requeue = True\<rparr>,
                                       [CallUpdate link',
                                        LogError ''Unable to remove finalizer from DeviceLink''])
                                  | None \<Rightarrow> (\<lparr>Requeue = False\<rparr>, [CallUpdate link']))))
                else if \<not> StringSliceContain (Finalizers link) ReconcilingDeviceLink
                then (let link' = link\<lparr>Finalizers := Finalizers link @ [ReconcilingDeviceLink]\<rparr>
                      in case Update_DeviceLink r link' of
                           Some e \<Rightarrow>
                             (\<lparr>Requeue = True\<rparr>,
                              [CallUpdate link', LogError ''Unable to add finalizer to DeviceLink''])
                         | None \<Rightarrow> (\<lparr>Requeue = False\<rparr>, [CallUpdate link']))
                else reconcileAdaptorExisted r req link)))"

section \<open>Observations on a pass\<close>

text \<open>
  The writes to the resource store among the effects of a pass: a write of the link
  (the record or its status) and a write of the device (create or update).
\<close>

fun isLinkWrite :: "'r effect \<Rightarrow> bool" where
  "isLinkWrite (CallUpdate l) = True"
| "isLinkWrite (CallStatusUpdate l) = True"
| "isLinkWrite e = False"

fun isDeviceWrite :: "'r effect \<Rightarrow> bool" where
  "isDeviceWrite (CallUpdateDevice d) = True"
| "isDeviceWrite (CallCreate d) = True"
| "isDeviceWrite e = False"

definition isWrite :: "'r effect \<Rightarrow> bool" where
  "isWrite e = (isLinkWrite e \<or> isDeviceWrite e)"

fun isDisconnect :: "'r effect \<Rightarrow> bool" where
  "isDisconnect (CallDisconnect l) = True"
| "isDisconnect e = False"

section \<open>Concrete inputs\<close>

text \<open>
  The link of \<^verbatim>\<open>adaptors/opcua/deploy/e2e/dl_opcua_with_mqtt.yaml\<close> with an empty spec
  payload and the adaptor parameters \<^verbatim>\<open>a=1\<close>, bound to node \<^verbatim>\<open>edge-worker\<close>, with its
  finalizer, every condition but ModelExisted still Unknown; the remainder of a device's
  object tree as its uid and deletion timestamp; and a Reconciler on \<^verbatim>\<open>edge-worker\<close>
  whose store serves a given link and device and accepts every write, and whose
  connection manager knows the adaptor \<^verbatim>\<open>adaptors.edge.cattle.io/opcua\<close>.
\<close>

record ObjectRest =
  uid :: string
  deletionTimestamp :: "string option"

definition exAdaptor :: DeviceAdaptor where
  "exAdaptor = \<lparr>Adaptor_Node = ''edge-worker'', Adaptor_Name = ''adaptors.edge.cattle.io/opcua'',
                 Adaptor_Parameters = Some \<lparr>Raw = ''a=1''\<rparr>\<rparr>"

definition exUnknown :: DeviceLinkCondition where
  "exUnknown = \<lparr>Cond_Status = ConditionUnknown, Cond_Message = []\<rparr>"

definition exTrue :: DeviceLinkCondition where
  "exTrue = \<lparr>Cond_Status = ConditionTrue, Cond_Message = []\<rparr>"

definition exFalse :: DeviceLinkCondition where
  "exFalse = \<lparr>Cond_Status = ConditionFalse, Cond_Message = []\<rparr>"

definition exStatus :: DeviceLinkStatus where
  "exStatus = \<lparr>Status_NodeName = ''edge-worker'', Status_AdaptorName = [],
                Status_Adaptor = \<lparr>Adaptor_Node = [], Adaptor_Name = [], Adaptor_Parameters = None\<rparr>,
                Status_Model = \<lparr>Kind = ''OPCUADevice'', APIVersion = ''devices.edge.cattle.io/v1alpha1''\<rparr>,
                ModelExisted = exTrue, AdaptorExisted = exUnknown,
                DeviceCreated = exUnknown, DeviceConnected = exUnknown\<rparr>"

definition exLink :: DeviceLink where
  "exLink = \<lparr>Name = ''opcua-open'', Namespace = ''default'', DeletionTimestamp = None,
              Finalizers = [ReconcilingDeviceLink],
              Spec = \<lparr>Spec_Adaptor = exAdaptor,
                      Spec_Template = \<lparr>Template_Labels = Some (fmupd ''device'' ''opcua-open'' fmempty),
                                       Template_Spec = \<lparr>Raw = ''{}''\<rparr>\<rparr>\<rparr>,
              Status = exStatus\<rparr>"

text \<open>The same link once the AdaptorExisted stage has passed.\<close>

definition exStatusAdapted :: DeviceLinkStatus where
  "exStatusAdapted = exStatus\<lparr>Status_AdaptorName := ''adaptors.edge.cattle.io/opcua'',
                               Status_Adaptor := \<lparr>Adaptor_Node = [], Adaptor_Name = [],
                                                  Adaptor_Parameters = Some \<lparr>Raw = ''a=1''\<rparr>\<rparr>,
                               AdaptorExisted := exTrue\<rparr>"

definition exDevice :: "ObjectRest Unstructured" where
  "exDevice = \<lparr>kind = ''OPCUADevice'', apiVersion = ''devices.edge.cattle.io/v1alpha1'',
                name = ''opcua-open'', namespace = ''default'',
                labels = None, annotations = None, spec = None,
                rest = \<lparr>uid = ''014997f5'', deletionTimestamp = None\<rparr>\<rparr>"

definition exUnmarshal :: "string \<Rightarrow> err + json" where
  "exUnmarshal raw = (if raw = ''{}'' then Inr (JObject fmempty) else Inl ''unexpected payload'')"

definition exReconciler :: "DeviceLink \<Rightarrow> ObjectRest Unstructured \<Rightarrow> ObjectRest Reconciler" where
  "exReconciler link device =
     \<lparr>NodeName = ''edge-worker'',
      Get_DeviceLink = (\<lambda>req. Inr link),
      Get_Device = (\<lambda>req d. Inr device),
      Update_DeviceLink = (\<lambda>l. None),
      Status_Update = (\<lambda>l. None),
      Update_Device = (\<lambda>d. Inr d),
      Create_Device = (\<lambda>d. None),
      SuctionCup_ExistAdaptor = (\<lambda>n. n = ''adaptors.edge.cattle.io/opcua''),
      SuctionCup_Disconnect = (\<lambda>l. True),
      SuctionCup_Connect = (\<lambda>l. Inr False),
      SuctionCup_Send = (\<lambda>d l. None),
      NewInstanceOfTypeMeta =
        (\<lambda>m. Inr \<lparr>kind = Kind m, apiVersion = APIVersion m, name = [], namespace = [],
                    labels = None, annotations = None, spec = None,
                    rest = \<lparr>uid = [], deletionTimestamp = None\<rparr>\<rparr>),
      IsActivating = (\<lambda>d. uid (rest d) \<noteq> [] \<and> deletionTimestamp (rest d) = None),
      Unmarshal = exUnmarshal,
      SetControllerReference = (\<lambda>l d. Inr d),
      emptyRest = \<lparr>uid = [], deletionTimestamp = None\<rparr>\<rparr>"

definition exReq :: NamespacedName where
  "exReq = (''default'', ''opcua-open'')"

text \<open>
  The link at its later stages: the device created, the connection made; the link with
  its parameters withdrawn; and the device as \<^verbatim>\<open>updateDevice\<close> leaves it under
  \<open>exLink\<close>.
\<close>

definition exLinkAdapted :: DeviceLink where
  "exLinkAdapted = exLink\<lparr>Status := exStatusAdapted\<rparr>"

definition exLinkCreated :: DeviceLink where
  "exLinkCreated = exLink\<lparr>Status := exStatusAdapted\<lparr>DeviceCreated := exTrue\<rparr>\<rparr>"

definition exLinkConnected :: DeviceLink where
  "exLinkConnected = exLink\<lparr>Status := exStatusAdapted\<lparr>DeviceCreated := exTrue, DeviceConnected := exTrue\<rparr>\<rparr>"

definition exLinkNoParameters :: DeviceLink where
  "exLinkNoParameters =
     exLink\<lparr>Spec := (Spec exLink)\<lparr>Spec_Adaptor := exAdaptor\<lparr>Adaptor_Parameters := None\<rparr>\<rparr>\<rparr>"

definition exAnnotations :: "(string, string) fmap" where
  "exAnnotations =
     fmupd ''edge.cattle.io/adaptor-parameters'' ''a=1''
       (fmupd ''edge.cattle.io/adaptor-name'' ''adaptors.edge.cattle.io/opcua''
          (fmupd ''edge.cattle.io/adaptor-node'' ''edge-worker'' fmempty))"

definition exDeviceUpdated :: "ObjectRest Unstructured" where
  "exDeviceUpdated =
     exDevice\<lparr>labels := Some (fmupd ''device'' ''opcua-open'' fmempty),
               annotations := Some exAnnotations,
               spec := Some (JObject fmempty)\<rparr>"

text \<open>
  Scenarios on the connected link: the declared adaptor swapped for another one, the
  link marked for deletion, and both; the deleted link whose model is gone; the deleted
  link that never had the finalizer. Then the device that \<^verbatim>\<open>constructDevice\<close> builds
  for \<open>exLinkAdapted\<close>, and a Reconciler whose store knows no schema for the model
  kind.
\<close>

definition exLinkSwapped :: DeviceLink where
  "exLinkSwapped =
     exLinkConnected\<lparr>Spec := (Spec exLink)\<lparr>Spec_Adaptor :=
        exAdaptor\<lparr>Adaptor_Name := ''adaptors.edge.cattle.io/modbus''\<rparr>\<rparr>\<rparr>"

definition exLinkDeleted :: DeviceLink where
  "exLinkDeleted = exLinkConnected\<lparr>DeletionTimestamp := Some ''2020-06-01T08:00:00Z''\<rparr>"

definition exLinkSwappedDeleted :: DeviceLink where
  "exLinkSwappedDeleted = exLinkSwapped\<lparr>DeletionTimestamp := Some ''2020-06-01T08:00:00Z''\<rparr>"

definition exLinkDeletedNoModel :: DeviceLink where
  "exLinkDeletedNoModel = exLinkDeleted\<lparr>Status := (Status exLinkDeleted)\<lparr>ModelExisted := exFalse\<rparr>\<rparr>"

definition exLinkDeletedNoFinalizer :: DeviceLink where
  "exLinkDeletedNoFinalizer = exLinkDeleted\<lparr>Finalizers := []\<rparr>"

definition exDeviceConstructed :: "ObjectRest Unstructured" where
  "exDeviceConstructed =
     exDeviceUpdated\<lparr>rest := \<lparr>uid = [], deletionTimestamp = None\<rparr>\<rparr>"

definition exReconcilerNoMatch :: "ObjectRest Reconciler" where
  "exReconcilerNoMatch = (exReconciler exLinkAdapted exDevice)\<lparr>Create_Device := (\<lambda>d. Some NoMatch)\<rparr>"

section \<open>Properties of the pure helpers\<close>

lemma bytes_Compare_eq_0: "bytes_Compare a b = 0 \<longleftrightarrow> a = b"
  by (induction a b rule: bytes_Compare.induct) auto

text \<open>
  Claim C3. The parameter-change predicate reports a difference exactly when both
  parameter blobs are present and their raw bytes differ; it reports none when either
  side is absent.
\<close>

theorem compareAdaptorParameters_byte_exact:
  "compareAdaptorParameters adaptor statusAdaptor
     = (\<exists>p q. Adaptor_Parameters adaptor = Some p \<and> Adaptor_Parameters statusAdaptor = Some q
              \<and> Raw p \<noteq> Raw q)"
  by (simp add: compareAdaptorParameters_def bytes_Compare_eq_0 split: option.split)

text \<open>
  The blobs of the spec: \<^verbatim>\<open>a=1\<close> against \<^verbatim>\<open>a=1\<close> is no difference, \<^verbatim>\<open>a=1\<close>
  against \<^verbatim>\<open>a=2\<close> is one, and an absent side is none.
\<close>

theorem compareAdaptorParameters_byte_exact_witness:
  "\<not> compareAdaptorParameters exAdaptor exAdaptor
   \<and> compareAdaptorParameters exAdaptor (exAdaptor\<lparr>Adaptor_Parameters := Some \<lparr>Raw = ''a=2''\<rparr>\<rparr>)
   \<and> \<not> compareAdaptorParameters exAdaptor (exAdaptor\<lparr>Adaptor_Parameters := None\<rparr>)
   \<and> \<not> compareAdaptorParameters (exAdaptor\<lparr>Adaptor_Parameters := None\<rparr>) exAdaptor"
  using compareAdaptorParameters_byte_exact [of exAdaptor exAdaptor]
    compareAdaptorParameters_byte_exact [of exAdaptor "exAdaptor\<lparr>Adaptor_Parameters := Some \<lparr>Raw = ''a=2''\<rparr>\<rparr>"]
    compareAdaptorParameters_byte_exact [of exAdaptor "exAdaptor\<lparr>Adaptor_Parameters := None\<rparr>"]
    compareAdaptorParameters_byte_exact [of "exAdaptor\<lparr>Adaptor_Parameters := None\<rparr>" exAdaptor]
  by (simp add: exAdaptor_def)

lemma markDevice_twice: "markDevice link (Some (markDevice link anns)) = markDevice link anns"
  by (auto simp: markDevice_def Let_def intro!: fmap_ext split: option.splits)

lemma StringMapCopyInto_twice:
  "StringMapCopyInto src (StringMapCopyInto src dst) = StringMapCopyInto src dst"
  by (auto simp: StringMapCopyInto_def intro!: fmap_ext split: option.splits)

lemma updateDevice_fixpoint:
  "updateDevice U link (snd (snd (updateDevice U link d)))
     = (False, fst (snd (updateDevice U link d)), snd (snd (updateDevice U link d)))"
  by (simp add: updateDevice_def Let_def GetAnnotations_def GetLabels_def SetLabels_def
      SetAnnotations_def markDevice_twice StringMapCopyInto_twice split: sum.splits)

lemma updateDevice_exDevice:
  "updateDevice exUnmarshal exLink exDevice = (True, None, exDeviceUpdated)"
  by (simp add: updateDevice_def Let_def GetAnnotations_def GetLabels_def SetLabels_def
      SetAnnotations_def markDevice_def StringMapCopyInto_def exLink_def exDevice_def
      exUnmarshal_def exAdaptor_def exDeviceUpdated_def exAnnotations_def)

text \<open>
  Claim C9. The device-update transform changes nothing of the device but its labels,
  its annotations and its spec: kind, apiVersion, metadata.name and metadata.namespace
  are those of the input, whether the transform succeeds or fails.
\<close>

theorem updateDevice_frame:
  "snd (snd (updateDevice U link d))
     = d\<lparr>labels := labels (snd (snd (updateDevice U link d))),
         annotations := annotations (snd (snd (updateDevice U link d))),
         spec := spec (snd (snd (updateDevice U link d)))\<rparr>
   \<and> kind (snd (snd (updateDevice U link d))) = kind d
   \<and> apiVersion (snd (snd (updateDevice U link d))) = apiVersion d
   \<and> name (snd (snd (updateDevice U link d))) = name d
   \<and> namespace (snd (snd (updateDevice U link d))) = namespace d"
  by (simp add: updateDevice_def Let_def SetLabels_def SetAnnotations_def split: sum.splits)

theorem updateDevice_frame_witness:
  "exDeviceUpdated \<noteq> exDevice
   \<and> kind exDeviceUpdated = ''OPCUADevice''
   \<and> apiVersion exDeviceUpdated = ''devices.edge.cattle.io/v1alpha1''
   \<and> name exDeviceUpdated = ''opcua-open''
   \<and> namespace exDeviceUpdated = ''default''"
  using updateDevice_frame [of exUnmarshal exLink exDevice]
  by (simp add: updateDevice_exDevice) (simp add: exDevice_def exDeviceUpdated_def)

text \<open>
  Claim C10. For a link whose declared adaptor parameters are nil, the marking function
  sets the adaptor-node and adaptor-name keys and leaves the adaptor-parameters key as
  it finds it; so does \<^verbatim>\<open>updateDevice\<close>, which marks the annotations of the target: a
  device that carries the fingerprint of earlier parameters keeps it.
\<close>

theorem markDevice_keeps_stale_parameters:
  assumes "Adaptor_Parameters (Spec_Adaptor (Spec link)) = None"
  shows "fmlookup (markDevice link anns) ''edge.cattle.io/adaptor-node''
           = Some (Adaptor_Node (Spec_Adaptor (Spec link)))
       \<and> fmlookup (markDevice link anns) ''edge.cattle.io/adaptor-name''
           = Some (Adaptor_Name (Spec_Adaptor (Spec link)))
       \<and> fmlookup (markDevice link anns) ''edge.cattle.io/adaptor-parameters''
           = (case anns of None \<Rightarrow> None | Some m \<Rightarrow> fmlookup m ''edge.cattle.io/adaptor-parameters'')
       \<and> (case annotations (snd (snd (updateDevice U link d))) of
             None \<Rightarrow> None | Some m \<Rightarrow> fmlookup m ''edge.cattle.io/adaptor-parameters'')
           = (case annotations d of
                None \<Rightarrow> None | Some m \<Rightarrow> fmlookup m ''edge.cattle.io/adaptor-parameters'')"
  using assms
  by (auto simp: markDevice_def updateDevice_def Let_def GetAnnotations_def SetLabels_def
      SetAnnotations_def split: option.splits sum.splits)

text \<open>
  The device was marked with the parameters \<^verbatim>\<open>a=1\<close>; the link then declares none. The
  annotation stays, and \<^verbatim>\<open>updateDevice\<close> sees nothing to update.
\<close>

theorem markDevice_keeps_stale_parameters_witness:
  "Adaptor_Parameters (Spec_Adaptor (Spec exLinkNoParameters)) = None
   \<and> fmlookup (markDevice exLinkNoParameters (Some exAnnotations)) ''edge.cattle.io/adaptor-parameters''
       = Some ''a=1''
   \<and> updateDevice exUnmarshal exLinkNoParameters exDeviceUpdated = (False, None, exDeviceUpdated)"
proof -
  have h: "Adaptor_Parameters (Spec_Adaptor (Spec exLinkNoParameters)) = None"
    by (simp add: exLinkNoParameters_def)
  have m: "markDevice exLinkNoParameters (Some exAnnotations) = exAnnotations"
    by (auto simp: markDevice_def exLinkNoParameters_def exAdaptor_def exLink_def exAnnotations_def
        intro!: fmap_ext)
  then have "updateDevice exUnmarshal exLinkNoParameters exDeviceUpdated = (False, None, exDeviceUpdated)"
    by (simp add: updateDevice_def Let_def GetAnnotations_def GetLabels_def SetLabels_def
      SetAnnotations_def StringMapCopyInto_def exLinkNoParameters_def exLink_def exDevice_def
      exUnmarshal_def exDeviceUpdated_def)
  with h markDevice_keeps_stale_parameters [OF h, of "Some exAnnotations"]
  show ?thesis by (simp add: m) (simp add: exAnnotations_def)
qed

section \<open>The effects of the stages\<close>

lemma snd_after [simp]: "snd (after es out) = es @ snd out"
  by (simp add: after_def)

lemma fst_after [simp]: "fst (after es out) = fst out"
  by (simp add: after_def)

lemma writes_disconnect [simp]:
  "filter isLinkWrite (disconnect r l) = []" "filter isDeviceWrite (disconnect r l) = []"
  by (simp_all add: disconnect_def)

lemma writes_statusUpdate [simp]:
  "filter isLinkWrite (snd (statusUpdate r l)) = [CallStatusUpdate l]"
  "filter isDeviceWrite (snd (statusUpdate r l)) = []"
  by (simp_all add: statusUpdate_def split: option.split)

lemma writes_reconcileDeviceConnected:
  "length (filter isLinkWrite (snd (reconcileDeviceConnected r link device))) \<le> Suc 0"
  "filter isDeviceWrite (snd (reconcileDeviceConnected r link device)) = []"
  by (simp_all add: reconcileDeviceConnected_def Let_def
      split: ConditionStatus.split option.split sum.split)

lemma writes_updatesDevice:
  "length (filter isLinkWrite (snd (updatesDevice r link device))) \<le> Suc 0"
  "length (filter isDeviceWrite (snd (updatesDevice r link device))) \<le> Suc 0"
  by (simp_all add: updatesDevice_def writes_reconcileDeviceConnected
      split: option.split sum.split prod.split)

lemma writes_createsDevice:
  "length (filter isLinkWrite (snd (createsDevice r link))) \<le> Suc 0"
  "length (filter isDeviceWrite (snd (createsDevice r link))) \<le> Suc 0"
  by (simp_all add: createsDevice_def Let_def split: sum.split)

lemma writes_reconcileDeviceCreated:
  "length (filter isLinkWrite (snd (reconcileDeviceCreated r req link))) \<le> Suc 0"
  "length (filter isDeviceWrite (snd (reconcileDeviceCreated r req link))) \<le> Suc 0"
  by (simp_all add: reconcileDeviceCreated_def Let_def writes_updatesDevice writes_createsDevice
      split: ConditionStatus.split sum.split)

lemma writes_reconcileAdaptorExisted:
  "length (filter isLinkWrite (snd (reconcileAdaptorExisted r req link))) \<le> Suc 0"
  "length (filter isDeviceWrite (snd (reconcileAdaptorExisted r req link))) \<le> Suc 0"
  by (simp_all add: reconcileAdaptorExisted_def Let_def writes_reconcileDeviceCreated
      split: ConditionStatus.split)

lemma writes_Reconcile:
  "length (filter isLinkWrite (snd (Reconcile r req))) \<le> Suc 0"
  "length (filter isDeviceWrite (snd (Reconcile r req))) \<le> Suc 0"
  by (simp_all add: Reconcile_def Let_def writes_reconcileAdaptorExisted
      split: sum.split option.split)

lemma filter_isWrite_le:
  "length (filter isWrite xs) \<le> length (filter isLinkWrite xs) + length (filter isDeviceWrite xs)"
  by (induction xs) (auto simp: isWrite_def)

text \<open>
  Claim C7. Applied to the device it has just produced, with the same template, the
  device-update transform reports \<^verbatim>\<open>updated = false\<close> and leaves the device as it is;
  the \<^verbatim>\<open>// updates device\<close> branch of the pass, served that device, writes no device
  to the store.
\<close>

theorem updateDevice_idempotent:
  "fst (updateDevice U link (snd (snd (updateDevice U link d)))) = False
   \<and> snd (snd (updateDevice U link (snd (snd (updateDevice U link d))))) = snd (snd (updateDevice U link d))
   \<and> filter isDeviceWrite (snd (updatesDevice r link (snd (snd (updateDevice (Unmarshal r) link d))))) = []"
  by (simp add: updateDevice_fixpoint updatesDevice_def writes_reconcileDeviceConnected
      split: option.split prod.split)

text \<open>
  The first application to \<open>exDevice\<close> updates it; the second, to the result, does not,
  and the pass issues no device write.
\<close>

theorem updateDevice_idempotent_witness:
  "fst (updateDevice exUnmarshal exLink exDevice) = True
   \<and> updateDevice exUnmarshal exLink exDeviceUpdated = (False, None, exDeviceUpdated)
   \<and> filter isDeviceWrite (snd (updatesDevice (exReconciler exLink exDevice) exLink exDeviceUpdated)) = []"
  using updateDevice_idempotent [of exUnmarshal exLink exDevice "exReconciler exLink exDevice"]
    updateDevice_fixpoint [of exUnmarshal exLink exDevice]
  by (simp add: updateDevice_exDevice exReconciler_def)

section \<open>Passes on the concrete inputs\<close>

lemmas ex_defs = exReconciler_def exLink_def exLinkAdapted_def exLinkCreated_def exLinkConnected_def
  exStatus_def exStatusAdapted_def exTrue_def exFalse_def exUnknown_def exAdaptor_def exReq_def
  exDevice_def exDeviceUpdated_def exAnnotations_def exUnmarshal_def exLinkSwapped_def exLinkDeleted_def
  exLinkSwappedDeleted_def exLinkDeletedNoModel_def exLinkDeletedNoFinalizer_def exDeviceConstructed_def
  exReconcilerNoMatch_def

lemmas model_defs = Reconcile_def reconcileAdaptorExisted_def reconcileDeviceCreated_def
  reconcileDeviceConnected_def updatesDevice_def createsDevice_def statusUpdate_def disconnect_def
  after_def updateDevice_def constructDevice_def markDevice_def compareAdaptorParameters_def
  StringMapCopyInto_def StringMapCopy_def StringSliceContain_def StringSliceRemove_def IsDeleted_def
  GetModelExistedStatus_def GetAdaptorExistedStatus_def GetDeviceCreatedStatus_def
  GetDeviceConnectedStatus_def ToCheckAdaptorExisted_def SuccessOnAdaptorExisted_def
  FailOnAdaptorExisted_def ToCheckDeviceCreated_def SuccessOnDeviceCreated_def FailOnDeviceCreated_def
  SuccessOnDeviceConnected_def FailOnDeviceConnected_def IsNotFound_def IsAlreadyExists_def
  IsNoMatchError_def GetLabels_def GetAnnotations_def SetLabels_def SetAnnotations_def
  ReconcilingDeviceLink_def Let_def

text \<open>
  The pass on the link whose device is created and stale: it updates the device, falls
  through, connects and writes the status.
\<close>

lemma Reconcile_exLinkCreated:
  "Reconcile (exReconciler exLinkCreated exDevice) exReq =
     (\<lparr>Requeue = False\<rparr>,
      [CallGet exReq,
       GetStatus DeviceLinkModelExisted (Status exLinkCreated),
       GetStatus DeviceLinkAdaptorExisted (Status exLinkCreated),
       CallExistAdaptor ''adaptors.edge.cattle.io/opcua'',
       GetStatus DeviceLinkDeviceCreated (Status exLinkCreated),
       CallGetDevice exReq,
       CallUpdateDevice exDeviceUpdated,
       GetStatus DeviceLinkDeviceConnected (Status exLinkCreated),
       CallConnect exLinkCreated,
       IncreaseConnections ''adaptors.edge.cattle.io/opcua'',
       Eventf ''Normal'' ''Connected'' ''connected to adaptor'',
       CallStatusUpdate exLinkConnected])"
  by (simp add: model_defs ex_defs)


section \<open>The writes of a pass\<close>

text \<open>
  Claim C1, as amended. A pass writes the link at most once (the record or its status)
  and the device at most once (create or update), hence the store at most twice; the two
  can both happen in one pass.
\<close>

theorem Reconcile_writes:
  "length (filter isLinkWrite (snd (Reconcile r req))) \<le> 1
   \<and> length (filter isDeviceWrite (snd (Reconcile r req))) \<le> 1
   \<and> length (filter isWrite (snd (Reconcile r req))) \<le> 2"
  using writes_Reconcile [of r req] filter_isWrite_le [of "snd (Reconcile r req)"]
  by simp

text \<open>The pass on \<open>exLinkCreated\<close> reaches both bounds.\<close>

theorem Reconcile_writes_witness:
  "length (filter isLinkWrite (snd (Reconcile (exReconciler exLinkCreated exDevice) exReq))) = 1
   \<and> length (filter isDeviceWrite (snd (Reconcile (exReconciler exLinkCreated exDevice) exReq))) = 1"
  using Reconcile_writes [of "exReconciler exLinkCreated exDevice" exReq]
  by (simp add: Reconcile_exLinkCreated)

text \<open>
  The claim as stated fails on that pass: it updates the device record and then writes
  the link's status, two writes.
\<close>

theorem Reconcile_two_writes_counterexample:
  "filter isWrite (snd (Reconcile (exReconciler exLinkCreated exDevice) exReq))
     = [CallUpdateDevice exDeviceUpdated, CallStatusUpdate exLinkConnected]
   \<and> \<not> length (filter isWrite (snd (Reconcile (exReconciler exLinkCreated exDevice) exReq))) \<le> 1"
  by (simp add: Reconcile_exLinkCreated isWrite_def)

section \<open>The order of the stages\<close>

lemma reads_statusUpdate [simp]:
  "GetStatus c st \<notin> set (snd (statusUpdate r l))"
  "CallConnect l' \<notin> set (snd (statusUpdate r l))"
  "CallSend d l' \<notin> set (snd (statusUpdate r l))"
  "CallExistAdaptor n \<notin> set (snd (statusUpdate r l))"
  by (simp_all add: statusUpdate_def split: option.split)

lemma reads_disconnect [simp]:
  "GetStatus c st \<notin> set (disconnect r l)"
  "CallConnect l' \<notin> set (disconnect r l)"
  "CallSend d l' \<notin> set (disconnect r l)"
  "CallExistAdaptor n \<notin> set (disconnect r l)"
  by (simp_all add: disconnect_def)

lemma reads_reconcileDeviceConnected:
  "GetStatus c st \<in> set (snd (reconcileDeviceConnected r link device))
     \<Longrightarrow> c = DeviceLinkDeviceConnected \<and> st = Status link"
  "CallConnect l \<in> set (snd (reconcileDeviceConnected r link device)) \<Longrightarrow> l = link"
  "CallSend d l \<in> set (snd (reconcileDeviceConnected r link device)) \<Longrightarrow> l = link"
  by (auto simp: reconcileDeviceConnected_def Let_def
      split: ConditionStatus.splits option.splits sum.splits if_splits)

lemma reads_updatesDevice:
  "GetStatus c st \<in> set (snd (updatesDevice r link device))
     \<Longrightarrow> c = DeviceLinkDeviceConnected \<and> st = Status link"
  "CallConnect l \<in> set (snd (updatesDevice r link device)) \<Longrightarrow> l = link"
  "CallSend d l \<in> set (snd (updatesDevice r link device)) \<Longrightarrow> l = link"
  by (auto simp: updatesDevice_def reads_reconcileDeviceConnected
      split: option.splits sum.splits prod.splits if_splits
      dest: reads_reconcileDeviceConnected)

lemma reads_createsDevice [simp]:
  "GetStatus c st \<notin> set (snd (createsDevice r link))"
  "CallConnect l \<notin> set (snd (createsDevice r link))"
  "CallSend d l \<notin> set (snd (createsDevice r link))"
  "CallExistAdaptor n \<notin> set (snd (createsDevice r link))"
  by (simp_all add: createsDevice_def Let_def split: sum.split)

lemma reads_reconcileDeviceCreated:
  "GetStatus c st \<in> set (snd (reconcileDeviceCreated r req link))
     \<Longrightarrow> st = Status link \<and> (c = DeviceLinkDeviceCreated
           \<or> c = DeviceLinkDeviceConnected \<and> GetDeviceCreatedStatus (Status link) = ConditionTrue)"
  "CallConnect l \<in> set (snd (reconcileDeviceCreated r req link))
     \<Longrightarrow> l = link \<and> GetDeviceCreatedStatus (Status link) = ConditionTrue"
  "CallSend d l \<in> set (snd (reconcileDeviceCreated r req link))
     \<Longrightarrow> l = link \<and> GetDeviceCreatedStatus (Status link) = ConditionTrue"
  by (auto simp: reconcileDeviceCreated_def Let_def reads_updatesDevice
      split: ConditionStatus.splits sum.splits if_splits
      dest: reads_updatesDevice)

lemma exist_stages [simp]:
  "CallExistAdaptor n \<notin> set (snd (reconcileDeviceConnected r link device))"
  "CallExistAdaptor n \<notin> set (snd (updatesDevice r link device))"
  "CallExistAdaptor n \<notin> set (snd (reconcileDeviceCreated r req link))"
proof -
  show a: "CallExistAdaptor n \<notin> set (snd (reconcileDeviceConnected r link device))" for device
    by (simp add: reconcileDeviceConnected_def Let_def
        split: ConditionStatus.split option.split sum.split)
  show b: "CallExistAdaptor n \<notin> set (snd (updatesDevice r link device))" for device
    by (simp add: updatesDevice_def a split: option.split sum.split prod.split)
  show "CallExistAdaptor n \<notin> set (snd (reconcileDeviceCreated r req link))"
    by (simp add: reconcileDeviceCreated_def Let_def b split: ConditionStatus.split sum.split)
qed

lemma exist_Reconcile:
  "CallExistAdaptor n \<in> set (snd (Reconcile r req))
     \<Longrightarrow> \<exists>link. Get_DeviceLink r req = Inr link \<and> GetModelExistedStatus (Status link) = ConditionTrue"
  by (auto simp: Reconcile_def Let_def split: sum.splits if_splits option.splits)

lemma reads_reconcileAdaptorExisted:
  "GetStatus c st \<in> set (snd (reconcileAdaptorExisted r req link))
     \<Longrightarrow> st = Status link \<and> (c = DeviceLinkAdaptorExisted \<or> c = DeviceLinkDeviceCreated
           \<or> c = DeviceLinkDeviceConnected \<and> GetDeviceCreatedStatus (Status link) = ConditionTrue)"
  "CallConnect l \<in> set (snd (reconcileAdaptorExisted r req link))
     \<Longrightarrow> l = link \<and> GetDeviceCreatedStatus (Status link) = ConditionTrue"
  "CallSend d l \<in> set (snd (reconcileAdaptorExisted r req link))
     \<Longrightarrow> l = link \<and> GetDeviceCreatedStatus (Status link) = ConditionTrue"
  by (auto simp: reconcileAdaptorExisted_def Let_def
      split: ConditionStatus.splits if_splits
      dest: reads_reconcileDeviceCreated)

lemma reads_Reconcile:
  "GetStatus c st \<in> set (snd (Reconcile r req))
     \<Longrightarrow> Get_DeviceLink r req = Inr link
     \<Longrightarrow> st = Status link \<and> (c = DeviceLinkModelExisted
           \<or> GetModelExistedStatus (Status link) = ConditionTrue
             \<and> (c = DeviceLinkAdaptorExisted \<or> c = DeviceLinkDeviceCreated
                \<or> c = DeviceLinkDeviceConnected \<and> GetDeviceCreatedStatus (Status link) = ConditionTrue))"
  "CallConnect l \<in> set (snd (Reconcile r req))
     \<Longrightarrow> Get_DeviceLink r req = Inr link
     \<Longrightarrow> l = link \<and> GetDeviceCreatedStatus (Status link) = ConditionTrue"
  "CallSend d l \<in> set (snd (Reconcile r req))
     \<Longrightarrow> Get_DeviceLink r req = Inr link
     \<Longrightarrow> l = link \<and> GetDeviceCreatedStatus (Status link) = ConditionTrue"
  by (auto simp: Reconcile_def Let_def
      split: if_splits option.splits
      dest: reads_reconcileAdaptorExisted)

lemma reads_Reconcile_fetch:
  "GetStatus c st \<in> set (snd (Reconcile r req)) \<Longrightarrow> \<exists>link. Get_DeviceLink r req = Inr link"
  "CallConnect l \<in> set (snd (Reconcile r req)) \<Longrightarrow> \<exists>link. Get_DeviceLink r req = Inr link"
  "CallSend d l \<in> set (snd (Reconcile r req)) \<Longrightarrow> \<exists>link. Get_DeviceLink r req = Inr link"
  by (auto simp: Reconcile_def split: sum.splits if_splits)

text \<open>
  Claim C2. In every pass, the DeviceConnected slot is read, and Connect or Send called,
  only with a status whose DeviceCreated is True; the AdaptorExisted slot is read, and
  the adaptor looked up, only with a status whose ModelExisted is True.
\<close>

theorem stages_ordered:
  "(GetStatus DeviceLinkDeviceConnected st \<in> set (snd (Reconcile r req))
      \<longrightarrow> GetDeviceCreatedStatus st = ConditionTrue)
   \<and> (CallConnect l \<in> set (snd (Reconcile r req))
      \<longrightarrow> GetDeviceCreatedStatus (Status l) = ConditionTrue)
   \<and> (CallSend d l \<in> set (snd (Reconcile r req))
      \<longrightarrow> GetDeviceCreatedStatus (Status l) = ConditionTrue)
   \<and> (GetStatus DeviceLinkAdaptorExisted st \<in> set (snd (Reconcile r req))
      \<longrightarrow> GetModelExistedStatus st = ConditionTrue)
   \<and> (CallExistAdaptor n \<in> set (snd (Reconcile r req))
      \<longrightarrow> (\<exists>link. Get_DeviceLink r req = Inr link
             \<and> GetModelExistedStatus (Status link) = ConditionTrue))"
proof -
  have a: "GetDeviceCreatedStatus st = ConditionTrue"
    if "GetStatus DeviceLinkDeviceConnected st \<in> set (snd (Reconcile r req))"
    using that reads_Reconcile_fetch(1) [OF that] reads_Reconcile(1) [OF that] by auto
  have b: "GetDeviceCreatedStatus (Status l) = ConditionTrue"
    if "CallConnect l \<in> set (snd (Reconcile r req))"
    using that reads_Reconcile_fetch(2) [OF that] reads_Reconcile(2) [OF that] by auto
  have c: "GetDeviceCreatedStatus (Status l) = ConditionTrue"
    if "CallSend d l \<in> set (snd (Reconcile r req))"
    using that reads_Reconcile_fetch(3) [OF that] reads_Reconcile(3) [OF that] by auto
  have d: "GetModelExistedStatus st = ConditionTrue"
    if "GetStatus DeviceLinkAdaptorExisted st \<in> set (snd (Reconcile r req))"
    using that reads_Reconcile_fetch(1) [OF that] reads_Reconcile(1) [OF that] by auto
  from a b c d exist_Reconcile [of n r req] show ?thesis by blast
qed

text \<open>The pass on \<open>exLinkCreated\<close> reads both slots and connects.\<close>

theorem stages_ordered_witness:
  "GetStatus DeviceLinkDeviceConnected (Status exLinkCreated)
      \<in> set (snd (Reconcile (exReconciler exLinkCreated exDevice) exReq))
   \<and> GetDeviceCreatedStatus (Status exLinkCreated) = ConditionTrue
   \<and> CallConnect exLinkCreated \<in> set (snd (Reconcile (exReconciler exLinkCreated exDevice) exReq))
   \<and> GetStatus DeviceLinkAdaptorExisted (Status exLinkCreated)
      \<in> set (snd (Reconcile (exReconciler exLinkCreated exDevice) exReq))
   \<and> GetModelExistedStatus (Status exLinkCreated) = ConditionTrue"
  using stages_ordered [of "Status exLinkCreated" "exReconciler exLinkCreated exDevice" exReq
      exLinkCreated exDevice]
  by (simp add: Reconcile_exLinkCreated)

section \<open>The gates and the transitions of the stages\<close>

text \<open>
  A pass on a link that is bound to this node, whose model exists, that is not marked for
  deletion and has the finalizer, reaches the AdaptorExisted stage; with AdaptorExisted
  True and the declared adaptor present and unchanged, it goes on to the DeviceCreated
  stage.
\<close>

lemma reconcileAdaptorExisted_unchanged:
  assumes "GetAdaptorExistedStatus (Status link) = ConditionTrue"
    and "SuctionCup_ExistAdaptor r (Adaptor_Name (Spec_Adaptor (Spec link)))"
    and "Status_AdaptorName (Status link) = Adaptor_Name (Spec_Adaptor (Spec link))"
    and "Adaptor_Parameters (Status_Adaptor (Status link)) = Adaptor_Parameters (Spec_Adaptor (Spec link))"
  shows "reconcileAdaptorExisted r req link =
           after [GetStatus DeviceLinkAdaptorExisted (Status link),
                  CallExistAdaptor (Adaptor_Name (Spec_Adaptor (Spec link)))]
             (reconcileDeviceCreated r req link)"
  using assms
  by (simp add: reconcileAdaptorExisted_def after_def compareAdaptorParameters_def bytes_Compare_eq_0
      split: option.split)

lemma Reconcile_reaches_stages:
  assumes "Get_DeviceLink r req = Inr link"
    and "Status_NodeName (Status link) = NodeName r"
    and "GetModelExistedStatus (Status link) = ConditionTrue"
    and "\<not> IsDeleted link"
    and "StringSliceContain (Finalizers link) ReconcilingDeviceLink"
  shows "Reconcile r req =
           after [CallGet req, GetStatus DeviceLinkModelExisted (Status link)]
             (reconcileAdaptorExisted r req link)"
  using assms by (simp add: Reconcile_def after_def)

text \<open>The first pass on the fresh link \<open>exLink\<close>.\<close>

lemma Reconcile_exLink:
  "Reconcile (exReconciler exLink exDevice) exReq =
     (\<lparr>Requeue = False\<rparr>,
      [CallGet exReq,
       GetStatus DeviceLinkModelExisted (Status exLink),
       GetStatus DeviceLinkAdaptorExisted (Status exLink),
       CallExistAdaptor ''adaptors.edge.cattle.io/opcua'',
       CallStatusUpdate exLinkAdapted])"
  by (simp add: model_defs ex_defs)

text \<open>
  Claim C4, as amended. In a pass that reaches the AdaptorExisted stage (the link is
  bound to this node, ModelExisted is True, the link is not marked for deletion and has
  the finalizer), with AdaptorExisted True and the declared adaptor gone, or its name
  different from the recorded one, or both parameter blobs present with different bytes:
  the pass calls Disconnect, resets AdaptorExisted to Unknown, writes the status and
  returns; no later stage is evaluated. A failed status write asks for a requeue.
\<close>

theorem adaptor_change_resets:
  assumes "Get_DeviceLink r req = Inr link"
    and "Status_NodeName (Status link) = NodeName r"
    and "GetModelExistedStatus (Status link) = ConditionTrue"
    and "\<not> IsDeleted link"
    and "StringSliceContain (Finalizers link) ReconcilingDeviceLink"
    and "GetAdaptorExistedStatus (Status link) = ConditionTrue"
    and "\<not> SuctionCup_ExistAdaptor r (Adaptor_Name (Spec_Adaptor (Spec link)))
         \<or> Status_AdaptorName (Status link) \<noteq> Adaptor_Name (Spec_Adaptor (Spec link))
         \<or> (\<exists>p q. Adaptor_Parameters (Spec_Adaptor (Spec link)) = Some p
                \<and> Adaptor_Parameters (Status_Adaptor (Status link)) = Some q \<and> Raw p \<noteq> Raw q)"
  shows "(let link' = link\<lparr>Status := ToCheckAdaptorExisted (Status link)\<rparr>
          in Reconcile r req =
               (\<lparr>Requeue = (Status_Update r link' \<noteq> None)\<rparr>,
                [CallGet req,
                 GetStatus DeviceLinkModelExisted (Status link),
                 GetStatus DeviceLinkAdaptorExisted (Status link),
                 CallExistAdaptor (Adaptor_Name (Spec_Adaptor (Spec link))),
                 CallDisconnect link]
                @ (if SuctionCup_Disconnect r link
                   then [DecreaseConnections (Status_AdaptorName (Status link))] else [])
                @ [CallStatusUpdate link']
                @ (if Status_Update r link' = None then []
                   else [LogError ''Unable to change the status of DeviceLink'']))
             \<and> GetAdaptorExistedStatus (Status link') = ConditionUnknown)"
proof -
  from assms(7)
  have changed: "\<not> SuctionCup_ExistAdaptor r (Adaptor_Name (Spec_Adaptor (Spec link)))
         \<or> Status_AdaptorName (Status link) \<noteq> Adaptor_Name (Spec_Adaptor (Spec link))
         \<or> compareAdaptorParameters (Spec_Adaptor (Spec link)) (Status_Adaptor (Status link))"
    by (auto simp: compareAdaptorParameters_def bytes_Compare_eq_0)
  have "reconcileAdaptorExisted r req link =
          after ([GetStatus DeviceLinkAdaptorExisted (Status link),
                  CallExistAdaptor (Adaptor_Name (Spec_Adaptor (Spec link)))] @ disconnect r link)
            (statusUpdate r (link\<lparr>Status := ToCheckAdaptorExisted (Status link)\<rparr>))"
    using assms(6) changed by (auto simp: reconcileAdaptorExisted_def after_def)
  then show ?thesis
    using assms(1-5)
    by (simp add: Reconcile_def after_def disconnect_def statusUpdate_def Let_def
        GetAdaptorExistedStatus_def ToCheckAdaptorExisted_def split: option.split)
qed

text \<open>The adaptor swap of the spec's scenario, on the connected link.\<close>

theorem adaptor_change_resets_witness:
  "Reconcile (exReconciler exLinkSwapped exDeviceUpdated) exReq =
     (\<lparr>Requeue = False\<rparr>,
      [CallGet exReq,
       GetStatus DeviceLinkModelExisted (Status exLinkSwapped),
       GetStatus DeviceLinkAdaptorExisted (Status exLinkSwapped),
       CallExistAdaptor ''adaptors.edge.cattle.io/modbus'',
       CallDisconnect exLinkSwapped,
       DecreaseConnections ''adaptors.edge.cattle.io/opcua'',
       CallStatusUpdate (exLinkSwapped\<lparr>Status := (Status exLinkSwapped)\<lparr>AdaptorExisted := exUnknown\<rparr>\<rparr>)])"
  using adaptor_change_resets [of "exReconciler exLinkSwapped exDeviceUpdated" exReq exLinkSwapped]
  by (simp add: ex_defs StringSliceContain_def IsDeleted_def GetModelExistedStatus_def
      GetAdaptorExistedStatus_def ReconcilingDeviceLink_def ToCheckAdaptorExisted_def Let_def)

text \<open>
  The claim as stated, for every pass with AdaptorExisted True and a changed adaptor,
  fails when an earlier gate ends the pass: on the swapped link marked for deletion the
  pass disconnects and removes the finalizer, and neither resets AdaptorExisted nor
  writes the status.
\<close>

theorem adaptor_change_on_deleted_link_counterexample:
  "Reconcile (exReconciler exLinkSwappedDeleted exDeviceUpdated) exReq =
     (\<lparr>Requeue = False\<rparr>,
      [CallGet exReq,
       GetStatus DeviceLinkModelExisted (Status exLinkSwappedDeleted),
       CallDisconnect exLinkSwappedDeleted,
       DecreaseConnections ''adaptors.edge.cattle.io/opcua'',
       CallUpdate (exLinkSwappedDeleted\<lparr>Finalizers := []\<rparr>)])
   \<and> GetAdaptorExistedStatus (Status exLinkSwappedDeleted) = ConditionTrue
   \<and> Status_AdaptorName (Status exLinkSwappedDeleted)
       \<noteq> Adaptor_Name (Spec_Adaptor (Spec exLinkSwappedDeleted))"
  by (simp add: model_defs ex_defs)

text \<open>
  Claim C5, as amended. On a link that reaches the AdaptorExisted stage with the slot
  Unknown and the declared adaptor present, the pass sets AdaptorExisted to True, records
  the adaptor's name and parameters, writes the status and stops: it does not evaluate
  the DeviceCreated stage. The next pass, by a Reconciler on the same node that is served
  the link as written and still finds the adaptor, evaluates the DeviceCreated stage.
  When moreover DeviceCreated is still Unknown, the device is constructed from the
  template without error and the store accepts the create or answers "already exists",
  that pass creates the device and writes the status with DeviceCreated True.
\<close>

theorem adaptor_unknown_then_create:
  assumes "Get_DeviceLink r req = Inr link"
    and "Status_NodeName (Status link) = NodeName r"
    and "GetModelExistedStatus (Status link) = ConditionTrue"
    and "\<not> IsDeleted link"
    and "StringSliceContain (Finalizers link) ReconcilingDeviceLink"
    and "GetAdaptorExistedStatus (Status link) = ConditionUnknown"
    and "SuctionCup_ExistAdaptor r (Adaptor_Name (Spec_Adaptor (Spec link)))"
  shows "(let n = Adaptor_Name (Spec_Adaptor (Spec link));
              link' = link\<lparr>Status := (SuccessOnAdaptorExisted (Status link))
                        \<lparr>Status_AdaptorName := n,
                         Status_Adaptor := (Status_Adaptor (Status link))
                            \<lparr>Adaptor_Parameters := Adaptor_Parameters (Spec_Adaptor (Spec link))\<rparr>\<rparr>\<rparr>;
              link'' = link'\<lparr>Status := SuccessOnDeviceCreated (Status link')\<rparr>
          in Reconcile r req =
               (\<lparr>Requeue = (Status_Update r link' \<noteq> None)\<rparr>,
                [CallGet req,
                 GetStatus DeviceLinkModelExisted (Status link),
                 GetStatus DeviceLinkAdaptorExisted (Status link),
                 CallExistAdaptor n,
                 CallStatusUpdate link']
                @ (if Status_Update r link' = None then []
                   else [LogError ''Unable to change the status of DeviceLink'']))
             \<and> GetAdaptorExistedStatus (Status link') = ConditionTrue
             \<and> (\<forall>r'.
                   Get_DeviceLink r' req = Inr link' \<and> NodeName r' = NodeName r
                   \<and> SuctionCup_ExistAdaptor r' n
                   \<longrightarrow> Reconcile r' req =
                         after [CallGet req,
                                GetStatus DeviceLinkModelExisted (Status link'),
                                GetStatus DeviceLinkAdaptorExisted (Status link'),
                                CallExistAdaptor n]
                           (reconcileDeviceCreated r' req link')
                       \<and> GetStatus DeviceLinkDeviceCreated (Status link') \<in> set (snd (Reconcile r' req))
                       \<and> (\<forall>device.
                             GetDeviceCreatedStatus (Status link) = ConditionUnknown
                             \<and> constructDevice (Unmarshal r') (SetControllerReference r') (emptyRest r') link'
                                 = Inr device
                             \<and> (Create_Device r' device = None
                                  \<or> Create_Device r' device = Some AlreadyExists)
                             \<longrightarrow> Reconcile r' req =
                                   (\<lparr>Requeue = (Status_Update r' link'' \<noteq> None)\<rparr>,
                                    [CallGet req,
                                     GetStatus DeviceLinkModelExisted (Status link'),
                                     GetStatus DeviceLinkAdaptorExisted (Status link'),
                                     CallExistAdaptor n,
                                     GetStatus DeviceLinkDeviceCreated (Status link'),
                                     CallCreate device,
                                     Eventf ''Normal'' ''Created'' ''device instance is created'',
                                     CallStatusUpdate link'']
                                    @ (if Status_Update r' link'' = None then []
                                       else [LogError ''Unable to change the status of DeviceLink'']))
                                 \<and> GetDeviceCreatedStatus (Status link'') = ConditionTrue)))"
proof -
  define n where "n = Adaptor_Name (Spec_Adaptor (Spec link))"
  define link' where "link' = link\<lparr>Status := (SuccessOnAdaptorExisted (Status link))
                        \<lparr>Status_AdaptorName := n,
                         Status_Adaptor := (Status_Adaptor (Status link))
                            \<lparr>Adaptor_Parameters := Adaptor_Parameters (Spec_Adaptor (Spec link))\<rparr>\<rparr>\<rparr>"
  define link'' where "link'' = link'\<lparr>Status := SuccessOnDeviceCreated (Status link')\<rparr>"
  have first: "Reconcile r req =
               (\<lparr>Requeue = (Status_Update r link' \<noteq> None)\<rparr>,
                [CallGet req,
                 GetStatus DeviceLinkModelExisted (Status link),
                 GetStatus DeviceLinkAdaptorExisted (Status link),
                 CallExistAdaptor n,
                 CallStatusUpdate link']
                @ (if Status_Update r link' = None then []
                   else [LogError ''Unable to change the status of DeviceLink'']))"
    using assms(6,7)
    by (simp add: Reconcile_reaches_stages [OF assms(1-5)] reconcileAdaptorExisted_def after_def
        statusUpdate_def Let_def n_def link'_def SuccessOnAdaptorExisted_def split: option.split)
  have st: "GetAdaptorExistedStatus (Status link') = ConditionTrue"
    by (simp add: link'_def GetAdaptorExistedStatus_def SuccessOnAdaptorExisted_def)
  have reach: "Reconcile r' req =
                 after [CallGet req,
                        GetStatus DeviceLinkModelExisted (Status link'),
                        GetStatus DeviceLinkAdaptorExisted (Status link'),
                        CallExistAdaptor n]
                   (reconcileDeviceCreated r' req link')"
    if h: "Get_DeviceLink r' req = Inr link'" "NodeName r' = NodeName r"
      "SuctionCup_ExistAdaptor r' n"
    for r'
  proof -
    have g: "Status_NodeName (Status link') = NodeName r'"
      "GetModelExistedStatus (Status link') = ConditionTrue"
      "\<not> IsDeleted link'"
      "StringSliceContain (Finalizers link') ReconcilingDeviceLink"
      using assms(2-5) h(2)
      by (simp_all add: link'_def IsDeleted_def GetModelExistedStatus_def SuccessOnAdaptorExisted_def)
    have a: "SuctionCup_ExistAdaptor r' (Adaptor_Name (Spec_Adaptor (Spec link')))"
      "Status_AdaptorName (Status link') = Adaptor_Name (Spec_Adaptor (Spec link'))"
      "Adaptor_Parameters (Status_Adaptor (Status link')) = Adaptor_Parameters (Spec_Adaptor (Spec link'))"
      "Adaptor_Name (Spec_Adaptor (Spec link')) = n"
      using h(3) by (simp_all add: link'_def n_def)
    show ?thesis
      using a(4)
      by (simp add: Reconcile_reaches_stages [OF h(1) g] reconcileAdaptorExisted_unchanged [OF st a(1-3)]
          after_def)
  qed
  have evaluated: "GetStatus DeviceLinkDeviceCreated (Status link') \<in> set (snd (Reconcile r' req))"
    if h: "Get_DeviceLink r' req = Inr link'" "NodeName r' = NodeName r"
      "SuctionCup_ExistAdaptor r' n"
    for r'
    by (simp add: reach [OF h] reconcileDeviceCreated_def)
  have created: "Reconcile r' req =
                 (\<lparr>Requeue = (Status_Update r' link'' \<noteq> None)\<rparr>,
                  [CallGet req,
                   GetStatus DeviceLinkModelExisted (Status link'),
                   GetStatus DeviceLinkAdaptorExisted (Status link'),
                   CallExistAdaptor n,
                   GetStatus DeviceLinkDeviceCreated (Status link'),
                   CallCreate device,
                   Eventf ''Normal'' ''Created'' ''device instance is created'',
                   CallStatusUpdate link'']
                  @ (if Status_Update r' link'' = None then []
                     else [LogError ''Unable to change the status of DeviceLink'']))
               \<and> GetDeviceCreatedStatus (Status link'') = ConditionTrue"
    if h: "Get_DeviceLink r' req = Inr link'" "NodeName r' = NodeName r"
      "SuctionCup_ExistAdaptor r' n"
      and k: "GetDeviceCreatedStatus (Status link) = ConditionUnknown"
      "constructDevice (Unmarshal r') (SetControllerReference r') (emptyRest r') link' = Inr device"
      "Create_Device r' device = None \<or> Create_Device r' device = Some AlreadyExists"
    for r' device
  proof -
    have c: "GetDeviceCreatedStatus (Status link') = ConditionUnknown"
      using k(1) by (simp add: link'_def GetDeviceCreatedStatus_def SuccessOnAdaptorExisted_def)
    have "createsDevice r' link' =
            after [CallCreate device, Eventf ''Normal'' ''Created'' ''device instance is created'']
              (statusUpdate r' link'')"
      using k(2,3)
      by (auto simp: createsDevice_def Let_def IsAlreadyExists_def IsNoMatchError_def link''_def)
    then show ?thesis
      using c
      by (simp add: reach [OF h] reconcileDeviceCreated_def after_def statusUpdate_def link''_def
          GetDeviceCreatedStatus_def SuccessOnDeviceCreated_def split: option.split)
  qed
  from first st reach evaluated created show ?thesis
    unfolding Let_def n_def [symmetric] link'_def [symmetric] link''_def [symmetric]
    by blast
qed

text \<open>
  The two passes on the fresh link \<open>exLink\<close>: the first stops after the status write,
  the second reads the DeviceCreated slot and creates the device.
\<close>

theorem adaptor_unknown_then_create_witness:
  "Reconcile (exReconciler exLink exDevice) exReq =
     (\<lparr>Requeue = False\<rparr>,
      [CallGet exReq,
       GetStatus DeviceLinkModelExisted (Status exLink),
       GetStatus DeviceLinkAdaptorExisted (Status exLink),
       CallExistAdaptor ''adaptors.edge.cattle.io/opcua'',
       CallStatusUpdate exLinkAdapted])
   \<and> GetStatus DeviceLinkDeviceCreated (Status exLinkAdapted)
       \<in> set (snd (Reconcile (exReconciler exLinkAdapted exDevice) exReq))
   \<and> Reconcile (exReconciler exLinkAdapted exDevice) exReq =
     (\<lparr>Requeue = False\<rparr>,
      [CallGet exReq,
       GetStatus DeviceLinkModelExisted (Status exLinkAdapted),
       GetStatus DeviceLinkAdaptorExisted (Status exLinkAdapted),
       CallExistAdaptor ''adaptors.edge.cattle.io/opcua'',
       GetStatus DeviceLinkDeviceCreated (Status exLinkAdapted),
       CallCreate exDeviceConstructed,
       Eventf ''Normal'' ''Created'' ''device instance is created'',
       CallStatusUpdate exLinkCreated])
   \<and> GetDeviceCreatedStatus (Status exLinkCreated) = ConditionTrue"
proof -
  have link': "exLink\<lparr>Status := (SuccessOnAdaptorExisted (Status exLink))
                        \<lparr>Status_AdaptorName := Adaptor_Name (Spec_Adaptor (Spec exLink)),
                         Status_Adaptor := (Status_Adaptor (Status exLink))
                            \<lparr>Adaptor_Parameters := Adaptor_Parameters (Spec_Adaptor (Spec exLink))\<rparr>\<rparr>\<rparr>
               = exLinkAdapted"
    by (simp add: ex_defs SuccessOnAdaptorExisted_def)
  have link'': "exLinkAdapted\<lparr>Status := SuccessOnDeviceCreated (Status exLinkAdapted)\<rparr> = exLinkCreated"
    by (simp add: ex_defs SuccessOnDeviceCreated_def)
  have hyps: "Get_DeviceLink (exReconciler exLink exDevice) exReq = Inr exLink"
    "Status_NodeName (Status exLink) = NodeName (exReconciler exLink exDevice)"
    "GetModelExistedStatus (Status exLink) = ConditionTrue"
    "\<not> IsDeleted exLink"
    "StringSliceContain (Finalizers exLink) ReconcilingDeviceLink"
    "GetAdaptorExistedStatus (Status exLink) = ConditionUnknown"
    "SuctionCup_ExistAdaptor (exReconciler exLink exDevice) (Adaptor_Name (Spec_Adaptor (Spec exLink)))"
    by (simp_all add: ex_defs IsDeleted_def StringSliceContain_def GetModelExistedStatus_def
        GetAdaptorExistedStatus_def)
  have n: "Adaptor_Name (Spec_Adaptor (Spec exLink)) = ''adaptors.edge.cattle.io/opcua''"
    by (simp add: ex_defs)
  have served: "Get_DeviceLink (exReconciler exLinkAdapted exDevice) exReq = Inr exLinkAdapted
    \<and> NodeName (exReconciler exLinkAdapted exDevice) = NodeName (exReconciler exLink exDevice)
    \<and> SuctionCup_ExistAdaptor (exReconciler exLinkAdapted exDevice)
        (Adaptor_Name (Spec_Adaptor (Spec exLink)))"
    by (simp add: ex_defs)
  have accepted: "GetDeviceCreatedStatus (Status exLink) = ConditionUnknown
    \<and> constructDevice (Unmarshal (exReconciler exLinkAdapted exDevice))
       (SetControllerReference (exReconciler exLinkAdapted exDevice))
       (emptyRest (exReconciler exLinkAdapted exDevice)) exLinkAdapted = Inr exDeviceConstructed
    \<and> (Create_Device (exReconciler exLinkAdapted exDevice) exDeviceConstructed = None
       \<or> Create_Device (exReconciler exLinkAdapted exDevice) exDeviceConstructed = Some AlreadyExists)"
    by (simp add: ex_defs GetDeviceCreatedStatus_def constructDevice_def markDevice_def
        StringMapCopy_def StringMapCopyInto_def Let_def)
  have writes: "Status_Update (exReconciler exLinkAdapted exDevice) exLinkCreated = None"
    "Status_Update (exReconciler exLink exDevice) exLinkAdapted = None"
    by (simp_all add: ex_defs)
  note t = adaptor_unknown_then_create [OF hyps, unfolded Let_def link' link'']
  note first = t [THEN conjunct1]
  note next_pass = t [THEN conjunct2, THEN conjunct2, rule_format,
      of "exReconciler exLinkAdapted exDevice", OF served]
  note evaluated = next_pass [THEN conjunct2, THEN conjunct1]
  note created = next_pass [THEN conjunct2, THEN conjunct2, rule_format, of exDeviceConstructed,
      OF accepted]
  from first evaluated created writes show ?thesis
    by (simp add: n)
qed

text \<open>
  The claim as stated fails on the first pass on \<open>exLink\<close>: after setting
  AdaptorExisted to True the pass writes the status and ends; the DeviceCreated slot is
  not read, no device is created, and the status written has DeviceCreated Unknown.
\<close>

theorem no_fall_through_counterexample:
  "snd (Reconcile (exReconciler exLink exDevice) exReq) =
      [CallGet exReq,
       GetStatus DeviceLinkModelExisted (Status exLink),
       GetStatus DeviceLinkAdaptorExisted (Status exLink),
       CallExistAdaptor ''adaptors.edge.cattle.io/opcua'',
       CallStatusUpdate exLinkAdapted]
   \<and> GetAdaptorExistedStatus (Status exLinkAdapted) = ConditionTrue
   \<and> GetDeviceCreatedStatus (Status exLinkAdapted) = ConditionUnknown
   \<and> filter isDeviceWrite (snd (Reconcile (exReconciler exLink exDevice) exReq)) = []"
  by (simp add: Reconcile_exLink)
    (simp add: ex_defs GetAdaptorExistedStatus_def GetDeviceCreatedStatus_def)

text \<open>
  Claim C6, what the code does instead. When the create of the device is answered by a
  no-match error, the pass logs, returns a requeue and ends: it does not set DeviceCreated
  to False, emits no event and writes no status. The test for the no-match error that
  follows in the source is behind the return for every error other than "already exists".
\<close>

theorem create_no_match_requeues:
  assumes "Get_DeviceLink r req = Inr link"
    and "Status_NodeName (Status link) = NodeName r"
    and "GetModelExistedStatus (Status link) = ConditionTrue"
    and "\<not> IsDeleted link"
    and "StringSliceContain (Finalizers link) ReconcilingDeviceLink"
    and "GetAdaptorExistedStatus (Status link) = ConditionTrue"
    and "SuctionCup_ExistAdaptor r (Adaptor_Name (Spec_Adaptor (Spec link)))"
    and "Status_AdaptorName (Status link) = Adaptor_Name (Spec_Adaptor (Spec link))"
    and "Adaptor_Parameters (Status_Adaptor (Status link)) = Adaptor_Parameters (Spec_Adaptor (Spec link))"
    and "GetDeviceCreatedStatus (Status link) = ConditionUnknown"
    and "constructDevice (Unmarshal r) (SetControllerReference r) (emptyRest r) link = Inr device"
    and "IsNoMatchError (Create_Device r device)"
  shows "Reconcile r req =
           (\<lparr>Requeue = True\<rparr>,
            [CallGet req,
             GetStatus DeviceLinkModelExisted (Status link),
             GetStatus DeviceLinkAdaptorExisted (Status link),
             CallExistAdaptor (Adaptor_Name (Spec_Adaptor (Spec link))),
             GetStatus DeviceLinkDeviceCreated (Status link),
             CallCreate device,
             LogError ''Unable to create the device of DeviceLink''])"
proof -
  have "createsDevice r link =
          (\<lparr>Requeue = True\<rparr>,
           [CallCreate device, LogError ''Unable to create the device of DeviceLink''])"
    using assms(11,12)
    by (simp add: createsDevice_def Let_def IsNoMatchError_def IsAlreadyExists_def)
  then show ?thesis
    using assms(10)
    by (simp add: Reconcile_reaches_stages [OF assms(1-5)]
        reconcileAdaptorExisted_unchanged [OF assms(6-9)] reconcileDeviceCreated_def after_def)
qed

text \<open>The pass on \<open>exLinkAdapted\<close> against a store without a schema for the model kind.\<close>

theorem create_no_match_requeues_witness:
  "Reconcile exReconcilerNoMatch exReq =
     (\<lparr>Requeue = True\<rparr>,
      [CallGet exReq,
       GetStatus DeviceLinkModelExisted (Status exLinkAdapted),
       GetStatus DeviceLinkAdaptorExisted (Status exLinkAdapted),
       CallExistAdaptor ''adaptors.edge.cattle.io/opcua'',
       GetStatus DeviceLinkDeviceCreated (Status exLinkAdapted),
       CallCreate exDeviceConstructed,
       LogError ''Unable to create the device of DeviceLink''])
   \<and> Create_Device exReconcilerNoMatch exDeviceConstructed = Some NoMatch
   \<and> filter isLinkWrite (snd (Reconcile exReconcilerNoMatch exReq)) = []"
proof -
  have hyps: "Get_DeviceLink exReconcilerNoMatch exReq = Inr exLinkAdapted"
    "Status_NodeName (Status exLinkAdapted) = NodeName exReconcilerNoMatch"
    "GetModelExistedStatus (Status exLinkAdapted) = ConditionTrue"
    "\<not> IsDeleted exLinkAdapted"
    "StringSliceContain (Finalizers exLinkAdapted) ReconcilingDeviceLink"
    "GetAdaptorExistedStatus (Status exLinkAdapted) = ConditionTrue"
    "SuctionCup_ExistAdaptor exReconcilerNoMatch (Adaptor_Name (Spec_Adaptor (Spec exLinkAdapted)))"
    "Status_AdaptorName (Status exLinkAdapted) = Adaptor_Name (Spec_Adaptor (Spec exLinkAdapted))"
    "Adaptor_Parameters (Status_Adaptor (Status exLinkAdapted))
       = Adaptor_Parameters (Spec_Adaptor (Spec exLinkAdapted))"
    "GetDeviceCreatedStatus (Status exLinkAdapted) = ConditionUnknown"
    "constructDevice (Unmarshal exReconcilerNoMatch) (SetControllerReference exReconcilerNoMatch)
       (emptyRest exReconcilerNoMatch) exLinkAdapted = Inr exDeviceConstructed"
    "IsNoMatchError (Create_Device exReconcilerNoMatch exDeviceConstructed)"
    by (simp_all add: ex_defs IsDeleted_def StringSliceContain_def GetModelExistedStatus_def
        GetAdaptorExistedStatus_def GetDeviceCreatedStatus_def IsNoMatchError_def
        constructDevice_def markDevice_def StringMapCopy_def StringMapCopyInto_def Let_def)
  have n: "Adaptor_Name (Spec_Adaptor (Spec exLinkAdapted)) = ''adaptors.edge.cattle.io/opcua''"
    by (simp add: ex_defs)
  from create_no_match_requeues [OF hyps] hyps(12) show ?thesis
    by (simp add: n IsNoMatchError_def)
qed

text \<open>
  Claim C8, as amended. In a pass on a link marked for deletion that is bound to this
  node and whose ModelExisted is True: without the finalizer the pass stops, with no
  disconnect and no write; with it the pass calls Disconnect once (and decrements the
  connection counter when a connection existed), removes the finalizer, writes the
  record, and answers a failed write with a requeue.
\<close>

theorem deletion_gate:
  assumes "Get_DeviceLink r req = Inr link"
    and "Status_NodeName (Status link) = NodeName r"
    and "GetModelExistedStatus (Status link) = ConditionTrue"
    and "IsDeleted link"
  shows "(if \<not> StringSliceContain (Finalizers link) ReconcilingDeviceLink
          then Reconcile r req =
                 (\<lparr>Requeue = False\<rparr>, [CallGet req, GetStatus DeviceLinkModelExisted (Status link)])
          else (let link' = link\<lparr>Finalizers := StringSliceRemove (Finalizers link) ReconcilingDeviceLink\<rparr>
                in Reconcile r req =
                     (\<lparr>Requeue = (Update_DeviceLink r link' \<noteq> None)\<rparr>,
                      [CallGet req,
                       GetStatus DeviceLinkModelExisted (Status link),
                       CallDisconnect link]
                      @ (if SuctionCup_Disconnect r link
                         then [DecreaseConnections (Status_AdaptorName (Status link))] else [])
                      @ [CallUpdate link']
                      @ (if Update_DeviceLink r link' = None then []
                         else [LogError ''Unable to remove finalizer from DeviceLink'']))
                   \<and> \<not> StringSliceContain (Finalizers link') ReconcilingDeviceLink
                   \<and> length (filter isDisconnect (snd (Reconcile r req))) = 1))"
  using assms
  by (simp add: Reconcile_def after_def disconnect_def Let_def StringSliceContain_def
      StringSliceRemove_def split: option.split)

text \<open>The deleted link with the finalizer, and the one without.\<close>

theorem deletion_gate_witness:
  "Reconcile (exReconciler exLinkDeleted exDeviceUpdated) exReq =
     (\<lparr>Requeue = False\<rparr>,
      [CallGet exReq,
       GetStatus DeviceLinkModelExisted (Status exLinkDeleted),
       CallDisconnect exLinkDeleted,
       DecreaseConnections ''adaptors.edge.cattle.io/opcua'',
       CallUpdate (exLinkDeleted\<lparr>Finalizers := []\<rparr>)])
   \<and> Reconcile (exReconciler exLinkDeletedNoFinalizer exDeviceUpdated) exReq =
     (\<lparr>Requeue = False\<rparr>,
      [CallGet exReq, GetStatus DeviceLinkModelExisted (Status exLinkDeletedNoFinalizer)])"
  using deletion_gate [of "exReconciler exLinkDeleted exDeviceUpdated" exReq exLinkDeleted]
    deletion_gate [of "exReconciler exLinkDeletedNoFinalizer exDeviceUpdated" exReq exLinkDeletedNoFinalizer]
  by (simp add: ex_defs IsDeleted_def StringSliceContain_def StringSliceRemove_def
      GetModelExistedStatus_def ReconcilingDeviceLink_def Let_def)

text \<open>
  The claim as stated, for every pass on a link marked for deletion, fails behind the
  ModelExisted gate: the deleted link with the finalizer whose model is gone is
  disconnected, and the pass ends without removing the finalizer or writing the record.
\<close>

theorem deletion_behind_model_gate_counterexample:
  "Reconcile (exReconciler exLinkDeletedNoModel exDeviceUpdated) exReq =
     (\<lparr>Requeue = False\<rparr>,
      [CallGet exReq,
       GetStatus DeviceLinkModelExisted (Status exLinkDeletedNoModel),
       CallDisconnect exLinkDeletedNoModel,
       DecreaseConnections ''adaptors.edge.cattle.io/opcua''])
   \<and> IsDeleted exLinkDeletedNoModel
   \<and> StringSliceContain (Finalizers exLinkDeletedNoModel) ReconcilingDeviceLink
   \<and> filter isLinkWrite (snd (Reconcile (exReconciler exLinkDeletedNoModel exDeviceUpdated) exReq)) = []"
  by (simp add: model_defs ex_defs)

end
